theory Spec2Isabelle
  imports Main "HOL-Library.Multiset"
begin

text \<open>
  Window Merge, a browser extension that moves the tabs of all eligible windows into one
  target window. The background script is embedded function by function, with the
  browser API it calls as a parameter; every \<open>await\<close> is a step of sequential state
  passing, so nothing else happens between two steps. The two triggers (toolbar click and
  keyboard command) only call \<open>executeMerge\<close> with the window of the event and are left
  out, as is the content script's display-mode probe, of which the background script sees
  the \<open>PWA_DETECTED\<close> message only.
\<close>

section \<open>Data read from the host platform\<close>

text \<open>
  The extension reads plain objects handed out by the browser. Only the properties that
  the background script touches are kept: \<open>w.id\<close> and \<open>w.incognito\<close> of a window (plus its
  \<open>type\<close>, which the browser uses to answer \<open>windows.getAll({windowTypes})\<close>);
  \<open>t.id\<close>, \<open>t.pinned\<close> and \<open>t.windowId\<close> of a tab (plus its group membership, which the
  browser uses to answer \<open>tabs.query({windowId, groupId})\<close>); \<open>group.id\<close>, \<open>group.title\<close>,
  \<open>group.color\<close> and \<open>group.collapsed\<close> of a tab group. Identifiers are JavaScript numbers
  holding integers.
\<close>

record window =
  w_id :: int
  incognito :: bool
  w_type :: string

record tab =
  t_id :: int
  t_windowId :: int
  pinned :: bool
  t_groupId :: int

record tabGroup =
  g_id :: int
  g_windowId :: int
  title :: string
  color :: string
  collapsed :: bool

text \<open>The message of the content script and the sender information added by the runtime.\<close>

record message =
  mtype :: string
  url :: string

record sender =
  sender_tab :: "tab option"

section \<open>The browser API as a parameter\<close>

text \<open>
  Every \<open>chrome.*\<close> function returns a promise that either resolves with a value or
  rejects with an error. A rejected promise is \<open>Inl\<close> of the error text, a resolved one
  \<open>Inr\<close> of the value. Queries read the browser state \<open>'h\<close>; the five mutating
  functions also return the next browser state (whatever it is, also after a rejection).
  The program is verified for an arbitrary value of this record.
\<close>

type_synonym rejection = string

datatype tabs_arg = One int | Many "int list"

record 'h chrome =
  windows_get :: "int \<Rightarrow> 'h \<Rightarrow> rejection + window"
  windows_getAll :: "string list \<Rightarrow> 'h \<Rightarrow> rejection + window list"
  tabs_query :: "int \<Rightarrow> int option \<Rightarrow> 'h \<Rightarrow> rejection + tab list"
  tabGroups_query :: "int \<Rightarrow> 'h \<Rightarrow> rejection + tabGroup list"
  tabs_move :: "tabs_arg \<Rightarrow> int \<Rightarrow> int \<Rightarrow> 'h \<Rightarrow> (rejection + unit) \<times> 'h"
  tabs_update :: "int \<Rightarrow> bool \<Rightarrow> 'h \<Rightarrow> (rejection + unit) \<times> 'h"
  tabGroups_move :: "int \<Rightarrow> int \<Rightarrow> int \<Rightarrow> 'h \<Rightarrow> (rejection + unit) \<times> 'h"
  tabs_group :: "int list \<Rightarrow> int \<Rightarrow> 'h \<Rightarrow> (rejection + int) \<times> 'h"
  tabGroups_update :: "int \<Rightarrow> string \<Rightarrow> string \<Rightarrow> bool \<Rightarrow> 'h \<Rightarrow> (rejection + unit) \<times> 'h"

text \<open>
  The history of requests sent to the browser, in the order they were issued, each
  mutating request with its outcome (\<open>True\<close>: resolved; for \<open>tabs.group\<close> the new group
  identifier).
\<close>

datatype call =
    WindowsGet int
  | WindowsGetAll "string list"
  | TabsQuery int "int option"
  | TabGroupsQuery int
  | TabsMove tabs_arg int int bool
  | TabsUpdate int bool bool
  | TabGroupsMove int int int bool
  | TabsGroup "int list" int "int option"
  | TabGroupsUpdate int string string bool bool

text \<open>The lines written by \<open>console.error\<close>.\<close>

datatype diagnostic =
    MergeFailed rejection
  | MoveTabFailed int rejection
  | MoveTabsFailed rejection
  | MoveGroupFailed int rejection
  | RecreateGroupFailed rejection

text \<open>
  The state the background script runs in: the browser, the module-level set
  \<open>pwaWindowIds\<close>, the request history and the console.
\<close>

record 'h world =
  host :: 'h
  pwaWindowIds :: "int set"
  calls :: "call list"
  console :: "diagnostic list"

definition resolved :: "rejection + 'a \<Rightarrow> bool" where
  "resolved r = (case r of Inl _ \<Rightarrow> False | Inr _ \<Rightarrow> True)"

definition TAB_POSITION_START :: int where
  "TAB_POSITION_START = 0"

definition TAB_POSITION_END :: int where
  "TAB_POSITION_END = - 1"

subsection \<open>Awaited requests\<close>

definition chrome_windows_get :: "'h chrome \<Rightarrow> int \<Rightarrow> 'h world \<Rightarrow> (rejection + window) \<times> 'h world" where
  "chrome_windows_get H wid w =
     (windows_get H wid (host w), w\<lparr>calls := calls w @ [WindowsGet wid]\<rparr>)"

definition chrome_windows_getAll :: "'h chrome \<Rightarrow> string list \<Rightarrow> 'h world \<Rightarrow> (rejection + window list) \<times> 'h world" where
  "chrome_windows_getAll H tys w =
     (windows_getAll H tys (host w), w\<lparr>calls := calls w @ [WindowsGetAll tys]\<rparr>)"

definition chrome_tabs_query :: "'h chrome \<Rightarrow> int \<Rightarrow> int option \<Rightarrow> 'h world \<Rightarrow> (rejection + tab list) \<times> 'h world" where
  "chrome_tabs_query H wid gid w =
     (tabs_query H wid gid (host w), w\<lparr>calls := calls w @ [TabsQuery wid gid]\<rparr>)"

definition chrome_tabGroups_query :: "'h chrome \<Rightarrow> int \<Rightarrow> 'h world \<Rightarrow> (rejection + tabGroup list) \<times> 'h world" where
  "chrome_tabGroups_query H wid w =
     (tabGroups_query H wid (host w), w\<lparr>calls := calls w @ [TabGroupsQuery wid]\<rparr>)"

definition chrome_tabs_move :: "'h chrome \<Rightarrow> tabs_arg \<Rightarrow> int \<Rightarrow> int \<Rightarrow> 'h world \<Rightarrow> (rejection + unit) \<times> 'h world" where
  "chrome_tabs_move H a wid idx w =
     (case tabs_move H a wid idx (host w) of
        (r, h') \<Rightarrow> (r, w\<lparr>host := h', calls := calls w @ [TabsMove a wid idx (resolved r)]\<rparr>))"

definition chrome_tabs_update :: "'h chrome \<Rightarrow> int \<Rightarrow> bool \<Rightarrow> 'h world \<Rightarrow> (rejection + unit) \<times> 'h world" where
  "chrome_tabs_update H tid p w =
     (case tabs_update H tid p (host w) of
        (r, h') \<Rightarrow> (r, w\<lparr>host := h', calls := calls w @ [TabsUpdate tid p (resolved r)]\<rparr>))"

definition chrome_tabGroups_move :: "'h chrome \<Rightarrow> int \<Rightarrow> int \<Rightarrow> int \<Rightarrow> 'h world \<Rightarrow> (rejection + unit) \<times> 'h world" where
  "chrome_tabGroups_move H gid wid idx w =
     (case tabGroups_move H gid wid idx (host w) of
        (r, h') \<Rightarrow> (r, w\<lparr>host := h', calls := calls w @ [TabGroupsMove gid wid idx (resolved r)]\<rparr>))"

definition chrome_tabs_group :: "'h chrome \<Rightarrow> int list \<Rightarrow> int \<Rightarrow> 'h world \<Rightarrow> (rejection + int) \<times> 'h world" where
  "chrome_tabs_group H ids wid w =
     (case tabs_group H ids wid (host w) of
        (r, h') \<Rightarrow> (r, w\<lparr>host := h',
           calls := calls w @ [TabsGroup ids wid (case r of Inl _ \<Rightarrow> None | Inr g \<Rightarrow> Some g)]\<rparr>))"

definition chrome_tabGroups_update :: "'h chrome \<Rightarrow> int \<Rightarrow> string \<Rightarrow> string \<Rightarrow> bool \<Rightarrow> 'h world \<Rightarrow> (rejection + unit) \<times> 'h world" where
  "chrome_tabGroups_update H gid ti co cl w =
     (case tabGroups_update H gid ti co cl (host w) of
        (r, h') \<Rightarrow> (r, w\<lparr>host := h', calls := calls w @ [TabGroupsUpdate gid ti co cl (resolved r)]\<rparr>))"

section \<open>The registry of excluded windows\<close>

text \<open>
  \<open>chrome.runtime.onMessage\<close>: a \<open>PWA_DETECTED\<close> message that comes from a tab adds that
  tab's window to \<open>pwaWindowIds\<close>. The listener returns nothing.
\<close>

definition onMessage :: "message \<Rightarrow> sender \<Rightarrow> 'h world \<Rightarrow> 'h world" where
  "onMessage msg sndr w =
     (if mtype msg = ''PWA_DETECTED''
      then (case sender_tab sndr of
              Some t \<Rightarrow> w\<lparr>pwaWindowIds := insert (t_windowId t) (pwaWindowIds w)\<rparr>
            | None \<Rightarrow> w)
      else w)"

text \<open>\<open>chrome.windows.onRemoved\<close>: a closed window leaves the set.\<close>

definition onRemoved :: "int \<Rightarrow> 'h world \<Rightarrow> 'h world" where
  "onRemoved wid w = w\<lparr>pwaWindowIds := pwaWindowIds w - {wid}\<rparr>"

section \<open>Source windows\<close>

definition getSourceWindows :: "'h chrome \<Rightarrow> int \<Rightarrow> 'h world \<Rightarrow> (rejection + window list) \<times> 'h world" where
  "getSourceWindows H targetWindowId w =
     (case chrome_windows_get H targetWindowId w of
        (Inl e, w1) \<Rightarrow> (Inl e, w1)
      | (Inr targetWindow, w1) \<Rightarrow>
          (case chrome_windows_getAll H [''normal''] w1 of
             (Inl e, w2) \<Rightarrow> (Inl e, w2)
           | (Inr allWindows, w2) \<Rightarrow>
               (Inr (filter (\<lambda>x. w_id x \<noteq> targetWindowId
                              \<and> incognito x = incognito targetWindow
                              \<and> w_id x \<notin> pwaWindowIds w2) allWindows), w2)))"

section \<open>Safe tab operations\<close>

text \<open>
  Each wrapper awaits one request inside \<open>try\<close>/\<open>catch\<close>: a rejection is written to
  the console and turned into \<open>false\<close>. The default of \<open>safeMove\<close>'s \<open>index\<close>
  parameter, \<open>TAB_POSITION.END\<close>, is passed explicitly by the callers below.
\<close>

definition safeMove :: "'h chrome \<Rightarrow> int \<Rightarrow> int \<Rightarrow> int \<Rightarrow> 'h world \<Rightarrow> bool \<times> 'h world" where
  "safeMove H tabId wid index w =
     (case chrome_tabs_move H (One tabId) wid index w of
        (Inr _, w1) \<Rightarrow> (True, w1)
      | (Inl e, w1) \<Rightarrow> (False, w1\<lparr>console := console w1 @ [MoveTabFailed tabId e]\<rparr>))"

definition safeMoveMultiple :: "'h chrome \<Rightarrow> int list \<Rightarrow> int \<Rightarrow> 'h world \<Rightarrow> bool \<times> 'h world" where
  "safeMoveMultiple H tabIds wid w =
     (case chrome_tabs_move H (Many tabIds) wid TAB_POSITION_END w of
        (Inr _, w1) \<Rightarrow> (True, w1)
      | (Inl e, w1) \<Rightarrow> (False, w1\<lparr>console := console w1 @ [MoveTabsFailed e]\<rparr>))"

definition safeMoveGroup :: "'h chrome \<Rightarrow> int \<Rightarrow> int \<Rightarrow> 'h world \<Rightarrow> bool \<times> 'h world" where
  "safeMoveGroup H groupId wid w =
     (case chrome_tabGroups_move H groupId wid TAB_POSITION_END w of
        (Inr _, w1) \<Rightarrow> (True, w1)
      | (Inl e, w1) \<Rightarrow> (False, w1\<lparr>console := console w1 @ [MoveGroupFailed groupId e]\<rparr>))"

section \<open>Classification\<close>

text \<open>
  \<open>Promise.all\<close> over the per-group queries: the requests are all issued, in the order of
  the groups, before any answer is awaited; the result is the list of answers, or the first
  rejection.
\<close>

fun Promise_all :: "(rejection + 'a) list \<Rightarrow> rejection + 'a list" where
  "Promise_all [] = Inr []"
| "Promise_all (Inl e # rs) = Inl e"
| "Promise_all (Inr x # rs) = (case Promise_all rs of Inl e \<Rightarrow> Inl e | Inr xs \<Rightarrow> Inr (x # xs))"

record classified =
  c_pinned :: "tab list"
  c_grouped :: "(tabGroup \<times> tab list) list"
  c_ungrouped :: "tab list"

definition classifyTabs :: "'h chrome \<Rightarrow> tab list \<Rightarrow> int \<Rightarrow> 'h world \<Rightarrow> (rejection + classified) \<times> 'h world" where
  "classifyTabs H tabs wid w =
     (let pinnedTabs = filter (\<lambda>t. pinned t) tabs;
          unpinned = filter (\<lambda>t. \<not> pinned t) tabs
      in case chrome_tabGroups_query H wid w of
           (Inl e, w1) \<Rightarrow> (Inl e, w1)
         | (Inr groups, w1) \<Rightarrow>
             (let w2 = w1\<lparr>calls := calls w1 @ map (\<lambda>g. TabsQuery wid (Some (g_id g))) groups\<rparr>
              in case Promise_all (map (\<lambda>g. tabs_query H wid (Some (g_id g)) (host w1)) groups) of
                   Inl e \<Rightarrow> (Inl e, w2)
                 | Inr groupTabs \<Rightarrow>
                     (let groupedTabIds = set (concat (map (map t_id) groupTabs));
                          grouped = zip groups groupTabs;
                          ungrouped = filter (\<lambda>t. t_id t \<notin> groupedTabIds) unpinned
                      in (Inr \<lparr>c_pinned = pinnedTabs, c_grouped = grouped, c_ungrouped = ungrouped\<rparr>, w2))))"




section \<open>Migration\<close>

fun migratePinnedTabs :: "'h chrome \<Rightarrow> tab list \<Rightarrow> int \<Rightarrow> 'h world \<Rightarrow> 'h world" where
  "migratePinnedTabs H [] targetWindowId w = w"
| "migratePinnedTabs H (t # tabs) targetWindowId w =
     (case safeMove H (t_id t) targetWindowId TAB_POSITION_START w of
        (True, w1) \<Rightarrow>
          migratePinnedTabs H tabs targetWindowId (snd (chrome_tabs_update H (t_id t) True w1))
      | (False, w1) \<Rightarrow> migratePinnedTabs H tabs targetWindowId w1)"

definition recreateGroup :: "'h chrome \<Rightarrow> tabGroup \<Rightarrow> tab list \<Rightarrow> int \<Rightarrow> 'h world \<Rightarrow> 'h world" where
  "recreateGroup H grp tabs targetWindowId w =
     (let tabIds = map t_id tabs
      in case safeMoveMultiple H tabIds targetWindowId w of
           (False, w1) \<Rightarrow> w1
         | (True, w1) \<Rightarrow>
             (case chrome_tabs_group H tabIds targetWindowId w1 of
                (Inl e, w2) \<Rightarrow> w2\<lparr>console := console w2 @ [RecreateGroupFailed e]\<rparr>
              | (Inr newGroupId, w2) \<Rightarrow>
                  (case chrome_tabGroups_update H newGroupId (title grp) (color grp) (collapsed grp) w2 of
                     (Inl e, w3) \<Rightarrow> w3\<lparr>console := console w3 @ [RecreateGroupFailed e]\<rparr>
                   | (Inr _, w3) \<Rightarrow> w3)))"

fun migrateTabGroups :: "'h chrome \<Rightarrow> (tabGroup \<times> tab list) list \<Rightarrow> int \<Rightarrow> 'h world \<Rightarrow> 'h world" where
  "migrateTabGroups H [] targetWindowId w = w"
| "migrateTabGroups H ((grp, tabs) # rest) targetWindowId w =
     (if length tabs = 0 then migrateTabGroups H rest targetWindowId w
      else case safeMoveGroup H (g_id grp) targetWindowId w of
             (True, w1) \<Rightarrow> migrateTabGroups H rest targetWindowId w1
           | (False, w1) \<Rightarrow>
               migrateTabGroups H rest targetWindowId (recreateGroup H grp tabs targetWindowId w1))"

text \<open>The fallback loop of \<open>migrateTabs\<close>: one \<open>safeMove\<close> per tab, results ignored.\<close>

fun moveEach :: "'h chrome \<Rightarrow> int list \<Rightarrow> int \<Rightarrow> 'h world \<Rightarrow> 'h world" where
  "moveEach H [] targetWindowId w = w"
| "moveEach H (tabId # tabIds) targetWindowId w =
     moveEach H tabIds targetWindowId (snd (safeMove H tabId targetWindowId TAB_POSITION_END w))"

definition migrateTabs :: "'h chrome \<Rightarrow> int list \<Rightarrow> int \<Rightarrow> 'h world \<Rightarrow> 'h world" where
  "migrateTabs H tabIds targetWindowId w =
     (if length tabIds = 0 then w
      else case safeMoveMultiple H tabIds targetWindowId w of
             (True, w1) \<Rightarrow> w1
           | (False, w1) \<Rightarrow> moveEach H tabIds targetWindowId w1)"

definition migrateWindow :: "'h chrome \<Rightarrow> int \<Rightarrow> int \<Rightarrow> 'h world \<Rightarrow> (rejection + unit) \<times> 'h world" where
  "migrateWindow H sourceWindowId targetWindowId w =
     (case chrome_tabs_query H sourceWindowId None w of
        (Inl e, w1) \<Rightarrow> (Inl e, w1)
      | (Inr tabs, w1) \<Rightarrow>
          if length tabs = 0 then (Inr (), w1)
          else (case classifyTabs H tabs sourceWindowId w1 of
                  (Inl e, w2) \<Rightarrow> (Inl e, w2)
                | (Inr c, w2) \<Rightarrow>
                    (let w3 = migratePinnedTabs H (c_pinned c) targetWindowId w2;
                         w4 = migrateTabGroups H (c_grouped c) targetWindowId w3;
                         w5 = migrateTabs H (map t_id (c_ungrouped c)) targetWindowId w4
                     in (Inr (), w5))))"

text \<open>The \<open>for\<close> loop of \<open>executeMerge\<close>: a rejection leaves the loop.\<close>

fun migrateEach :: "'h chrome \<Rightarrow> window list \<Rightarrow> int \<Rightarrow> 'h world \<Rightarrow> (rejection + unit) \<times> 'h world" where
  "migrateEach H [] targetWindowId w = (Inr (), w)"
| "migrateEach H (x # sourceWindows) targetWindowId w =
     (case migrateWindow H (w_id x) targetWindowId w of
        (Inl e, w1) \<Rightarrow> (Inl e, w1)
      | (Inr _, w1) \<Rightarrow> migrateEach H sourceWindows targetWindowId w1)"

definition executeMerge :: "'h chrome \<Rightarrow> int \<Rightarrow> 'h world \<Rightarrow> 'h world" where
  "executeMerge H targetWindowId w =
     (case getSourceWindows H targetWindowId w of
        (Inl e, w1) \<Rightarrow> w1\<lparr>console := console w1 @ [MergeFailed e]\<rparr>
      | (Inr sourceWindows, w1) \<Rightarrow>
          (case migrateEach H sourceWindows targetWindowId w1 of
             (Inl e, w2) \<Rightarrow> w2\<lparr>console := console w2 @ [MergeFailed e]\<rparr>
           | (Inr _, w2) \<Rightarrow> w2))"

section \<open>Request histories described by the design\<close>

text \<open>
  The requests that one step of each phase may issue, written from the description of the
  phases and indexed by how the browser answered. They are compared with the histories
  the functions above really produce.
\<close>

text \<open>Phase A, one pinned tab: \<open>(moved, repinned)\<close> are the answers to the move and to the pin update.\<close>

definition pinned_requests :: "int \<Rightarrow> tab \<Rightarrow> bool \<times> bool \<Rightarrow> call list" where
  "pinned_requests T t answer =
     (case answer of
        (True, repinned) \<Rightarrow> [TabsMove (One (t_id t)) T 0 True, TabsUpdate (t_id t) True repinned]
      | (False, _) \<Rightarrow> [TabsMove (One (t_id t)) T 0 False])"

text \<open>Phase B, one group: the four ways its migration can go.\<close>

datatype group_answer =
    GroupMoved
  | BatchRejected
  | GroupingRejected
  | Recreated int bool

definition group_requests :: "int \<Rightarrow> tabGroup \<times> tab list \<Rightarrow> group_answer \<Rightarrow> call list" where
  "group_requests T gt answer =
     (case gt of (g, tabs) \<Rightarrow>
        if tabs = [] then []
        else (case answer of
                GroupMoved \<Rightarrow> [TabGroupsMove (g_id g) T (- 1) True]
              | BatchRejected \<Rightarrow>
                  [TabGroupsMove (g_id g) T (- 1) False,
                   TabsMove (Many (map t_id tabs)) T (- 1) False]
              | GroupingRejected \<Rightarrow>
                  [TabGroupsMove (g_id g) T (- 1) False,
                   TabsMove (Many (map t_id tabs)) T (- 1) True,
                   TabsGroup (map t_id tabs) T None]
              | Recreated n updated \<Rightarrow>
                  [TabGroupsMove (g_id g) T (- 1) False,
                   TabsMove (Many (map t_id tabs)) T (- 1) True,
                   TabsGroup (map t_id tabs) T (Some n),
                   TabGroupsUpdate n (title g) (color g) (collapsed g) updated]))"

text \<open>Phase C: \<open>None\<close> when the batch move resolved, else the answers to the single moves.\<close>

definition ungrouped_requests :: "int \<Rightarrow> int list \<Rightarrow> bool list option \<Rightarrow> call list" where
  "ungrouped_requests T tabIds answer =
     (if tabIds = [] then []
      else (case answer of
              None \<Rightarrow> [TabsMove (Many tabIds) T (- 1) True]
            | Some singles \<Rightarrow>
                TabsMove (Many tabIds) T (- 1) False
                  # map2 (\<lambda>i ok. TabsMove (One i) T (- 1) ok) tabIds singles))"

text \<open>
  One source window: its tab query rejected; no tabs; the group query rejected; a member
  query rejected (all member queries were issued); or the window classified and migrated
  in the three phases, pinned tabs first, groups second, ungrouped tabs last.
\<close>

datatype window_answer =
    TabsRejected
  | NoTabs
  | GroupsRejected
  | MembersRejected "tabGroup list"
  | Migrated classified "(bool \<times> bool) list" "group_answer list" "bool list option"

fun window_requests :: "int \<Rightarrow> int \<Rightarrow> window_answer \<Rightarrow> call list" where
  "window_requests T S TabsRejected = [TabsQuery S None]"
| "window_requests T S NoTabs = [TabsQuery S None]"
| "window_requests T S GroupsRejected = [TabsQuery S None, TabGroupsQuery S]"
| "window_requests T S (MembersRejected gs) =
     [TabsQuery S None, TabGroupsQuery S] @ map (\<lambda>g. TabsQuery S (Some (g_id g))) gs"
| "window_requests T S (Migrated c a b d) =
     [TabsQuery S None, TabGroupsQuery S]
       @ map (\<lambda>gt. TabsQuery S (Some (g_id (fst gt)))) (c_grouped c)
       @ concat (map2 (pinned_requests T) (c_pinned c) a)
       @ concat (map2 (group_requests T) (c_grouped c) b)
       @ ungrouped_requests T (map t_id (c_ungrouped c)) d"

text \<open>There is one answer for every pinned tab, every group and, after a rejected batch, every ungrouped tab.\<close>

fun complete :: "window_answer \<Rightarrow> bool" where
  "complete (Migrated c a b d) =
     (length a = length (c_pinned c) \<and> length b = length (c_grouped c)
      \<and> (case d of None \<Rightarrow> True | Some singles \<Rightarrow> length singles = length (c_ungrouped c)))"
| "complete TabsRejected = True"
| "complete NoTabs = True"
| "complete GroupsRejected = True"
| "complete (MembersRejected gs) = True"

text \<open>A rejected query is not caught before \<open>executeMerge\<close>: it ends the merge.\<close>

fun aborts :: "window_answer \<Rightarrow> bool" where
  "aborts TabsRejected = True"
| "aborts GroupsRejected = True"
| "aborts (MembersRejected gs) = True"
| "aborts NoTabs = False"
| "aborts (Migrated c a b d) = False"

text \<open>The answers of \<open>n\<close> source windows in order, up to the first one that ends the merge.\<close>

fun covers :: "nat \<Rightarrow> window_answer list \<Rightarrow> bool" where
  "covers 0 answers = (answers = [])"
| "covers (Suc n) [] = False"
| "covers (Suc n) (a # answers) = (if aborts a then answers = [] else covers n answers)"

text \<open>The requests that change the browser.\<close>

fun mutating :: "call \<Rightarrow> bool" where
  "mutating (WindowsGet _) = False"
| "mutating (WindowsGetAll _) = False"
| "mutating (TabsQuery _ _) = False"
| "mutating (TabGroupsQuery _) = False"
| "mutating (TabsMove _ _ _ _) = True"
| "mutating (TabsUpdate _ _ _) = True"
| "mutating (TabGroupsMove _ _ _ _) = True"
| "mutating (TabsGroup _ _ _) = True"
| "mutating (TabGroupsUpdate _ _ _ _ _) = True"

section \<open>Histories and the browser state\<close>

text \<open>
  What a logged request does to the browser, and whether the outcome logged with it is the
  answer the browser gives in that state. \<open>replay\<close> runs a history from a browser state
  and yields the final state when every logged outcome is the browser's real answer.
\<close>

fun perform :: "'h chrome \<Rightarrow> call \<Rightarrow> 'h \<Rightarrow> 'h" where
  "perform H (TabsMove a wid idx _) h = snd (tabs_move H a wid idx h)"
| "perform H (TabsUpdate i p _) h = snd (tabs_update H i p h)"
| "perform H (TabGroupsMove g wid idx _) h = snd (tabGroups_move H g wid idx h)"
| "perform H (TabsGroup ids wid _) h = snd (tabs_group H ids wid h)"
| "perform H (TabGroupsUpdate g ti co cl _) h = snd (tabGroups_update H g ti co cl h)"
| "perform H (WindowsGet _) h = h"
| "perform H (WindowsGetAll _) h = h"
| "perform H (TabsQuery _ _) h = h"
| "perform H (TabGroupsQuery _) h = h"

fun answered :: "'h chrome \<Rightarrow> call \<Rightarrow> 'h \<Rightarrow> bool" where
  "answered H (TabsMove a wid idx ok) h = (resolved (fst (tabs_move H a wid idx h)) = ok)"
| "answered H (TabsUpdate i p ok) h = (resolved (fst (tabs_update H i p h)) = ok)"
| "answered H (TabGroupsMove g wid idx ok) h = (resolved (fst (tabGroups_move H g wid idx h)) = ok)"
| "answered H (TabsGroup ids wid r) h =
     ((case fst (tabs_group H ids wid h) of Inl _ \<Rightarrow> None | Inr n \<Rightarrow> Some n) = r)"
| "answered H (TabGroupsUpdate g ti co cl ok) h =
     (resolved (fst (tabGroups_update H g ti co cl h)) = ok)"
| "answered H (WindowsGet _) h = True"
| "answered H (WindowsGetAll _) h = True"
| "answered H (TabsQuery _ _) h = True"
| "answered H (TabGroupsQuery _) h = True"

fun replay :: "'h chrome \<Rightarrow> call list \<Rightarrow> 'h \<Rightarrow> 'h option" where
  "replay H [] h = Some h"
| "replay H (c # cs) h = (if answered H c h then replay H cs (perform H c h) else None)"

text \<open>
  \<open>runs H w R w'\<close>: between the worlds \<open>w\<close> and \<open>w'\<close> exactly the requests \<open>R\<close> were
  issued, in this order, the browser answered them as logged and its state changed by
  them only; the registry of excluded windows is as before.
\<close>

definition runs :: "'h chrome \<Rightarrow> 'h world \<Rightarrow> call list \<Rightarrow> 'h world \<Rightarrow> bool" where
  "runs H w R w' =
     (calls w' = calls w @ R \<and> replay H R (host w) = Some (host w')
      \<and> pwaWindowIds w' = pwaWindowIds w)"

text \<open>
  \<open>observed H S h answer\<close>: the answer recorded for the source window \<open>S\<close> is the one
  the browser in state \<open>h\<close> gives to the queries of that window. A rejected query is
  recorded as such; a window without tabs as \<open>NoTabs\<close>; and a window with tabs whose
  queries all resolve is recorded as \<open>Migrated\<close>, with the classification that these
  answers determine: the pinned tabs, every group with its member tabs, and the unpinned
  tabs that belong to no group.
\<close>

definition observed :: "'h chrome \<Rightarrow> int \<Rightarrow> 'h \<Rightarrow> window_answer \<Rightarrow> bool" where
  "observed H S h answer =
     (case tabs_query H S None h of
        Inl e \<Rightarrow> answer = TabsRejected
      | Inr tabs \<Rightarrow>
          if tabs = [] then answer = NoTabs
          else (case tabGroups_query H S h of
                  Inl e \<Rightarrow> answer = GroupsRejected
                | Inr groups \<Rightarrow>
                    (case Promise_all (map (\<lambda>g. tabs_query H S (Some (g_id g)) h) groups) of
                       Inl e \<Rightarrow> answer = MembersRejected groups
                     | Inr groupTabs \<Rightarrow>
                         (case answer of
                            Migrated c a b d \<Rightarrow>
                              c = \<lparr>c_pinned = filter pinned tabs,
                                   c_grouped = zip groups groupTabs,
                                   c_ungrouped =
                                     filter (\<lambda>t. t_id t \<notin> set (concat (map (map t_id) groupTabs)))
                                       (filter (\<lambda>t. \<not> pinned t) tabs)\<rparr>
                          | _ \<Rightarrow> False))))"

text \<open>
  \<open>merge_observed H T sources h answers\<close>: there is one answer for every source window
  up to the first one that ends the merge; the answer of the first window is observed in
  the state \<open>h\<close> in which the merge reaches it, and the answer of every later window in
  the state that the requests of the windows before it have left.
\<close>

fun merge_observed :: "'h chrome \<Rightarrow> int \<Rightarrow> int list \<Rightarrow> 'h \<Rightarrow> window_answer list \<Rightarrow> bool" where
  "merge_observed H T [] h answers = (answers = [])"
| "merge_observed H T (S # sources) h [] = False"
| "merge_observed H T (S # sources) h (a # answers) =
     (observed H S h a
      \<and> (if aborts a then answers = []
         else (case replay H (window_requests T S a) h of
                 None \<Rightarrow> False
               | Some h' \<Rightarrow> merge_observed H T sources h' answers)))"

section \<open>A reference browser\<close>

text \<open>
  Modelled from the spec: the host windowing platform, an external collaborator whose code
  is not part of the repository. Its state is the list of windows, the list of tabs (the
  tab strip of a window is the sublist of its tabs, in order) and the list of groups. The
  design calls the reasons for a rejection opaque, so they are a parameter \<open>rejects\<close>; an
  accepted request does what section 6 of the design lists: a move across windows drops pin
  state and group membership of the tabs and puts them at the requested position, a group
  move takes the group and its tabs along unchanged, a group left without tabs is
  disbanded, a rejected request changes nothing.
\<close>

record browser =
  b_windows :: "window list"
  b_tabs :: "tab list"
  b_groups :: "tabGroup list"

text \<open>
  Modelled from the spec: the mutating requests of section 6 that a browser may reject (move
  one tab or a batch, set a tab's pinned flag, move a group, create a group from tabs,
  update a group).
\<close>

datatype request =
    ReqMoveTabs tabs_arg int int
  | ReqUpdateTab int bool
  | ReqMoveGroup int int int
  | ReqGroupTabs "int list" int
  | ReqUpdateGroup int string string bool

text \<open>Modelled from the spec: group membership of a tab is optional; \<open>- 1\<close> stands for no group.\<close>

definition NO_GROUP :: int where
  "NO_GROUP = - 1"

text \<open>The tab strip of a window and the identifiers of the member tabs of a group.\<close>

definition strip :: "int \<Rightarrow> browser \<Rightarrow> tab list" where
  "strip wid b = filter (\<lambda>t. t_windowId t = wid) (b_tabs b)"

definition members :: "int \<Rightarrow> browser \<Rightarrow> int set" where
  "members gid b = t_id ` {t \<in> set (b_tabs b). t_groupId t = gid}"

text \<open>
  Modelled from the spec: the identity of a group is invalidated when the platform disbands
  it; a group none of whose tabs is left is removed.
\<close>

definition disband :: "browser \<Rightarrow> browser" where
  "disband b = b\<lparr>b_groups := filter (\<lambda>g. g_id g \<in> t_groupId ` set (b_tabs b)) (b_groups b)\<rparr>"

text \<open>
  Modelled from the spec: tabs are moved to a window at a position. A negative index means
  the end of the strip, index \<open>k\<close> means in front of the tab that was at \<open>k\<close>. The strips of
  the other windows keep their order. A tab that changes its window loses pin state and
  group membership.
\<close>

definition place :: "int \<Rightarrow> tab list \<Rightarrow> tab list \<Rightarrow> tab list" where
  "place idx moved strp =
     (if idx < 0 then strp @ moved else take (nat idx) strp @ moved @ drop (nat idx) strp)"

definition relocate :: "int \<Rightarrow> int \<Rightarrow> tab list \<Rightarrow> tab list \<Rightarrow> tab list" where
  "relocate T idx moved rest =
     filter (\<lambda>t. t_windowId t \<noteq> T) rest @ place idx moved (filter (\<lambda>t. t_windowId t = T) rest)"

definition arrive :: "int \<Rightarrow> tab \<Rightarrow> tab" where
  "arrive T t =
     (if t_windowId t = T then t else t\<lparr>t_windowId := T, pinned := False, t_groupId := NO_GROUP\<rparr>)"

fun ids_of :: "tabs_arg \<Rightarrow> int list" where
  "ids_of (One i) = [i]"
| "ids_of (Many is) = is"

text \<open>Modelled from the spec: the identifier of a brand-new group.\<close>

text \<open>A positive group identifier that neither a group nor a tab of the browser carries.\<close>

definition fresh_group_id :: "browser \<Rightarrow> int" where
  "fresh_group_id b = foldr max (map g_id (b_groups b) @ map t_groupId (b_tabs b)) 0 + 1"

text \<open>
  Modelled from the spec: the four queries of section 6 (get a window by id, list the
  windows of given types, list the tabs of a window, optionally of one group, list the
  groups of a window). Only the lookup of a missing window is rejected.
\<close>

definition ref_windows_get :: "int \<Rightarrow> browser \<Rightarrow> rejection + window" where
  "ref_windows_get wid b =
     (case filter (\<lambda>x. w_id x = wid) (b_windows b) of
        [] \<Rightarrow> Inl ''No window with this id''
      | x # _ \<Rightarrow> Inr x)"

definition ref_windows_getAll :: "string list \<Rightarrow> browser \<Rightarrow> rejection + window list" where
  "ref_windows_getAll tys b = Inr (filter (\<lambda>x. w_type x \<in> set tys) (b_windows b))"

definition ref_tabs_query :: "int \<Rightarrow> int option \<Rightarrow> browser \<Rightarrow> rejection + tab list" where
  "ref_tabs_query wid gid b =
     Inr (filter (\<lambda>t. t_windowId t = wid \<and> (case gid of None \<Rightarrow> True | Some g \<Rightarrow> t_groupId t = g))
            (b_tabs b))"

definition ref_tabGroups_query :: "int \<Rightarrow> browser \<Rightarrow> rejection + tabGroup list" where
  "ref_tabGroups_query wid b = Inr (filter (\<lambda>g. g_windowId g = wid) (b_groups b))"

text \<open>
  Modelled from the spec: move one tab or a batch of tabs, in the order given, to a window
  at a position.
\<close>

definition ref_tabs_move ::
  "(browser \<Rightarrow> request \<Rightarrow> bool) \<Rightarrow> tabs_arg \<Rightarrow> int \<Rightarrow> int \<Rightarrow> browser \<Rightarrow> (rejection + unit) \<times> browser" where
  "ref_tabs_move rejects a T idx b =
     (if rejects b (ReqMoveTabs a T idx) then (Inl ''rejected'', b)
      else (let ids = ids_of a;
                moved = map (arrive T)
                          (concat (map (\<lambda>i. filter (\<lambda>t. t_id t = i) (b_tabs b)) (remdups ids)))
            in (Inr (),
                disband (b\<lparr>b_tabs := relocate T idx moved
                                      (filter (\<lambda>t. t_id t \<notin> set ids) (b_tabs b))\<rparr>))))"

text \<open>Modelled from the spec: set a tab's pinned flag; the strip keeps its order.\<close>

definition ref_tabs_update ::
  "(browser \<Rightarrow> request \<Rightarrow> bool) \<Rightarrow> int \<Rightarrow> bool \<Rightarrow> browser \<Rightarrow> (rejection + unit) \<times> browser" where
  "ref_tabs_update rejects tid p b =
     (if rejects b (ReqUpdateTab tid p) then (Inl ''rejected'', b)
      else (Inr (), b\<lparr>b_tabs := map (\<lambda>t. if t_id t = tid then t\<lparr>pinned := p\<rparr> else t) (b_tabs b)\<rparr>))"

text \<open>
  Modelled from the spec: move a group to a window at a position; the group keeps its
  identity, title, color and collapsed state, and its tabs move with it.
\<close>

definition ref_tabGroups_move ::
  "(browser \<Rightarrow> request \<Rightarrow> bool) \<Rightarrow> int \<Rightarrow> int \<Rightarrow> int \<Rightarrow> browser \<Rightarrow> (rejection + unit) \<times> browser" where
  "ref_tabGroups_move rejects gid T idx b =
     (if rejects b (ReqMoveGroup gid T idx) then (Inl ''rejected'', b)
      else (let mem = filter (\<lambda>t. t_groupId t = gid) (b_tabs b);
                moved = map (\<lambda>t. t\<lparr>t_windowId := T\<rparr>) mem
            in (Inr (),
                b\<lparr>b_tabs := relocate T idx moved (filter (\<lambda>t. t_groupId t \<noteq> gid) (b_tabs b)),
                  b_groups := map (\<lambda>g. if g_id g = gid then g\<lparr>g_windowId := T\<rparr> else g) (b_groups b)\<rparr>)))"

text \<open>
  Modelled from the spec: create a group from a batch of tab identifiers in a target
  window; the new group has the default look and the tabs become its members.
\<close>

definition ref_tabs_group ::
  "(browser \<Rightarrow> request \<Rightarrow> bool) \<Rightarrow> int list \<Rightarrow> int \<Rightarrow> browser \<Rightarrow> (rejection + int) \<times> browser" where
  "ref_tabs_group rejects ids T b =
     (if rejects b (ReqGroupTabs ids T) then (Inl ''rejected'', b)
      else (let n = fresh_group_id b
            in (Inr n,
                disband (b\<lparr>b_tabs := map (\<lambda>t. if t_id t \<in> set ids
                                              then t\<lparr>t_windowId := T, pinned := False, t_groupId := n\<rparr>
                                              else t) (b_tabs b),
                           b_groups := b_groups b @
                             [\<lparr>g_id = n, g_windowId = T, title = [], color = ''grey'', collapsed = False\<rparr>]\<rparr>))))"

text \<open>Modelled from the spec: update the title, color and collapsed flag of a group.\<close>

definition ref_tabGroups_update ::
  "(browser \<Rightarrow> request \<Rightarrow> bool) \<Rightarrow> int \<Rightarrow> string \<Rightarrow> string \<Rightarrow> bool \<Rightarrow> browser \<Rightarrow> (rejection + unit) \<times> browser" where
  "ref_tabGroups_update rejects gid ti co cl b =
     (if rejects b (ReqUpdateGroup gid ti co cl) then (Inl ''rejected'', b)
      else (Inr (),
            b\<lparr>b_groups := map (\<lambda>g. if g_id g = gid then g\<lparr>title := ti, color := co, collapsed := cl\<rparr> else g)
                              (b_groups b)\<rparr>))"

text \<open>Modelled from the spec: the reference browser as a value of the API record.\<close>

definition refHost :: "(browser \<Rightarrow> request \<Rightarrow> bool) \<Rightarrow> browser chrome" where
  "refHost rejects =
     \<lparr>windows_get = ref_windows_get,
      windows_getAll = ref_windows_getAll,
      tabs_query = ref_tabs_query,
      tabGroups_query = ref_tabGroups_query,
      tabs_move = ref_tabs_move rejects,
      tabs_update = ref_tabs_update rejects,
      tabGroups_move = ref_tabGroups_move rejects,
      tabs_group = ref_tabs_group rejects,
      tabGroups_update = ref_tabGroups_update rejects\<rparr>"

text \<open>
  \<open>holds k W ti co cl M b\<close>: in the browser \<open>b\<close> a group with identifier \<open>k\<close> exists in
  window \<open>W\<close> with title \<open>ti\<close>, color \<open>co\<close> and collapsed flag \<open>cl\<close>; its member tabs are
  exactly the tabs with identifiers \<open>M\<close>, and they are in window \<open>W\<close>.
\<close>

definition holds :: "int \<Rightarrow> int \<Rightarrow> string \<Rightarrow> string \<Rightarrow> bool \<Rightarrow> int set \<Rightarrow> browser \<Rightarrow> bool" where
  "holds k W ti co cl M b =
     ((\<exists>g \<in> set (b_groups b). g_id g = k \<and> g_windowId g = W
                               \<and> title g = ti \<and> color g = co \<and> collapsed g = cl)
      \<and> members k b = M
      \<and> (\<forall>t \<in> set (b_tabs b). t_groupId t = k \<longrightarrow> t_windowId t = W))"

text \<open>A world around a browser state: nothing excluded, nothing requested or logged yet.\<close>

definition start :: "'h \<Rightarrow> 'h world" where
  "start h = \<lparr>host = h, pwaWindowIds = {}, calls = [], console = []\<rparr>"

text \<open>
  The scenario of the design's section 8, extended: window 1 is the target and holds one
  tab; window 2 holds two pinned tabs, one tab in the blue group ``Work'' and one loose
  tab; window 3 is incognito; window 4 hosts an installed app; window 5 is a popup;
  window 6 is open but holds no tab.
\<close>

definition demo :: browser where
  "demo =
     \<lparr>b_windows =
        [\<lparr>w_id = 1, incognito = False, w_type = ''normal''\<rparr>,
         \<lparr>w_id = 2, incognito = False, w_type = ''normal''\<rparr>,
         \<lparr>w_id = 3, incognito = True, w_type = ''normal''\<rparr>,
         \<lparr>w_id = 4, incognito = False, w_type = ''normal''\<rparr>,
         \<lparr>w_id = 5, incognito = False, w_type = ''popup''\<rparr>,
         \<lparr>w_id = 6, incognito = False, w_type = ''normal''\<rparr>],
      b_tabs =
        [\<lparr>t_id = 10, t_windowId = 1, pinned = False, t_groupId = - 1\<rparr>,
         \<lparr>t_id = 21, t_windowId = 2, pinned = True, t_groupId = - 1\<rparr>,
         \<lparr>t_id = 22, t_windowId = 2, pinned = True, t_groupId = - 1\<rparr>,
         \<lparr>t_id = 23, t_windowId = 2, pinned = False, t_groupId = 7\<rparr>,
         \<lparr>t_id = 24, t_windowId = 2, pinned = False, t_groupId = - 1\<rparr>,
         \<lparr>t_id = 31, t_windowId = 3, pinned = False, t_groupId = - 1\<rparr>,
         \<lparr>t_id = 41, t_windowId = 4, pinned = False, t_groupId = - 1\<rparr>,
         \<lparr>t_id = 51, t_windowId = 5, pinned = False, t_groupId = - 1\<rparr>],
      b_groups =
        [\<lparr>g_id = 7, g_windowId = 2, title = ''Work'', color = ''blue'', collapsed = False\<rparr>]\<rparr>"


text \<open>The classification of window 2 of \<open>demo\<close>.\<close>

definition demo_classified :: classified where
  "demo_classified =
     \<lparr>c_pinned = [\<lparr>t_id = 21, t_windowId = 2, pinned = True, t_groupId = - 1\<rparr>,
                  \<lparr>t_id = 22, t_windowId = 2, pinned = True, t_groupId = - 1\<rparr>],
      c_grouped = [(\<lparr>g_id = 7, g_windowId = 2, title = ''Work'', color = ''blue'', collapsed = False\<rparr>,
                    [\<lparr>t_id = 23, t_windowId = 2, pinned = False, t_groupId = 7\<rparr>])],
      c_ungrouped = [\<lparr>t_id = 24, t_windowId = 2, pinned = False, t_groupId = - 1\<rparr>]\<rparr>"

text \<open>Three browsers' ways with requests: accept all, reject all, reject group moves only.\<close>

definition accepting :: "browser \<Rightarrow> request \<Rightarrow> bool" where
  "accepting b r = False"

definition rejecting :: "browser \<Rightarrow> request \<Rightarrow> bool" where
  "rejecting b r = True"

definition rejecting_group_moves :: "browser \<Rightarrow> request \<Rightarrow> bool" where
  "rejecting_group_moves b r = (case r of ReqMoveGroup _ _ _ \<Rightarrow> True | _ \<Rightarrow> False)"

text \<open>The notification of the content script running in tab 41 of window 4.\<close>

definition pwa_message :: message where
  "pwa_message = \<lparr>mtype = ''PWA_DETECTED'', url = ''https://app.example/''\<rparr>"

definition pwa_sender :: sender where
  "pwa_sender = \<lparr>sender_tab = Some \<lparr>t_id = 41, t_windowId = 4, pinned = False, t_groupId = - 1\<rparr>\<rparr>"

text \<open>The world in which that notification has been received.\<close>

definition marked :: "browser world" where
  "marked = onMessage pwa_message pwa_sender (start demo)"

section \<open>Composing histories\<close>

lemma replay_append:
  "replay H (xs @ ys) h = (case replay H xs h of None \<Rightarrow> None | Some h1 \<Rightarrow> replay H ys h1)"
  by (induction xs arbitrary: h) simp_all

lemma runs_refl: "runs H w [] w"
  by (simp add: runs_def)

lemma runs_trans: "runs H w R1 w1 \<Longrightarrow> runs H w1 R2 w2 \<Longrightarrow> runs H w (R1 @ R2) w2"
  by (simp add: runs_def replay_append)

lemma runs_step: "runs H w [c] w1 \<Longrightarrow> runs H w1 R w2 \<Longrightarrow> runs H w (c # R) w2"
  using runs_trans [of H w "[c]" w1 R w2] by simp

lemma runs_console: "runs H w R w' \<Longrightarrow> runs H w R (w'\<lparr>console := c\<rparr>)"
  by (simp add: runs_def)

lemma safeMove_runs:
  "safeMove H i T idx w = (ok, w') \<Longrightarrow> runs H w [TabsMove (One i) T idx ok] w'"
  by (auto simp add: safeMove_def chrome_tabs_move_def resolved_def runs_def
      split: prod.splits sum.splits)

lemma safeMoveMultiple_runs:
  "safeMoveMultiple H ids T w = (ok, w') \<Longrightarrow> runs H w [TabsMove (Many ids) T (- 1) ok] w'"
  by (auto simp add: safeMoveMultiple_def chrome_tabs_move_def resolved_def runs_def
      TAB_POSITION_END_def split: prod.splits sum.splits)

lemma safeMoveGroup_runs:
  "safeMoveGroup H g T w = (ok, w') \<Longrightarrow> runs H w [TabGroupsMove g T (- 1) ok] w'"
  by (auto simp add: safeMoveGroup_def chrome_tabGroups_move_def resolved_def runs_def
      TAB_POSITION_END_def split: prod.splits sum.splits)

lemma chrome_tabs_update_runs:
  "chrome_tabs_update H i p w = (r, w') \<Longrightarrow> runs H w [TabsUpdate i p (resolved r)] w'"
  by (auto simp add: chrome_tabs_update_def runs_def split: prod.splits)

lemma chrome_tabs_group_runs:
  "chrome_tabs_group H ids T w = (r, w') \<Longrightarrow>
     runs H w [TabsGroup ids T (case r of Inl _ \<Rightarrow> None | Inr n \<Rightarrow> Some n)] w'"
  by (auto simp add: chrome_tabs_group_def runs_def split: prod.splits)

lemma chrome_tabGroups_update_runs:
  "chrome_tabGroups_update H g ti co cl w = (r, w') \<Longrightarrow>
     runs H w [TabGroupsUpdate g ti co cl (resolved r)] w'"
  by (auto simp add: chrome_tabGroups_update_def runs_def split: prod.splits)

lemma migratePinnedTabs_runs:
  "\<exists>answers. length answers = length tabs \<and>
     runs H w (concat (map2 (pinned_requests T) tabs answers)) (migratePinnedTabs H tabs T w)"
proof (induction tabs arbitrary: w)
  case Nil
  show ?case by (simp add: runs_refl)
next
  case (Cons t tabs)
  obtain ok w1 where sm: "safeMove H (t_id t) T TAB_POSITION_START w = (ok, w1)"
    by (cases "safeMove H (t_id t) T TAB_POSITION_START w")
  then have r1: "runs H w [TabsMove (One (t_id t)) T 0 ok] w1"
    using safeMove_runs [of H "t_id t" T TAB_POSITION_START w ok w1]
    by (simp add: TAB_POSITION_START_def)
  show ?case
  proof (cases ok)
    case True
    obtain r w2 where up: "chrome_tabs_update H (t_id t) True w1 = (r, w2)"
      by (cases "chrome_tabs_update H (t_id t) True w1")
    from Cons.IH [of w2] obtain as where
      as: "length as = length tabs"
      "runs H w2 (concat (map2 (pinned_requests T) tabs as)) (migratePinnedTabs H tabs T w2)"
      by blast
    have eq: "migratePinnedTabs H (t # tabs) T w = migratePinnedTabs H tabs T w2"
      using sm up True by simp
    have r1': "runs H w [TabsMove (One (t_id t)) T 0 True] w1"
      using r1 True by simp
    have "runs H w (TabsMove (One (t_id t)) T 0 True # TabsUpdate (t_id t) True (resolved r)
             # concat (map2 (pinned_requests T) tabs as)) (migratePinnedTabs H tabs T w2)"
      by (rule runs_step [OF r1' runs_step [OF chrome_tabs_update_runs [OF up] as(2)]])
    with as(1) eq
    have "length ((True, resolved r) # as) = length (t # tabs) \<and>
          runs H w (concat (map2 (pinned_requests T) (t # tabs) ((True, resolved r) # as)))
            (migratePinnedTabs H (t # tabs) T w)"
      by (simp add: pinned_requests_def)
    then show ?thesis by blast
  next
    case False
    from Cons.IH [of w1] obtain as where
      as: "length as = length tabs"
      "runs H w1 (concat (map2 (pinned_requests T) tabs as)) (migratePinnedTabs H tabs T w1)"
      by blast
    have eq: "migratePinnedTabs H (t # tabs) T w = migratePinnedTabs H tabs T w1"
      using sm False by simp
    have r1': "runs H w [TabsMove (One (t_id t)) T 0 False] w1"
      using r1 False by simp
    have "runs H w (TabsMove (One (t_id t)) T 0 False
             # concat (map2 (pinned_requests T) tabs as)) (migratePinnedTabs H tabs T w1)"
      by (rule runs_step [OF r1' as(2)])
    with as(1) eq
    have "length ((False, False) # as) = length (t # tabs) \<and>
          runs H w (concat (map2 (pinned_requests T) (t # tabs) ((False, False) # as)))
            (migratePinnedTabs H (t # tabs) T w)"
      by (simp add: pinned_requests_def)
    then show ?thesis by blast
  qed
qed

lemma recreateGroup_runs:
  assumes "tabs \<noteq> []"
  shows "\<exists>a. a \<noteq> GroupMoved \<and>
     runs H w (tl (group_requests T (g, tabs) a)) (recreateGroup H g tabs T w)"
proof -
  let ?ids = "map t_id tabs"
  obtain ok w1 where sm: "safeMoveMultiple H ?ids T w = (ok, w1)"
    by (cases "safeMoveMultiple H ?ids T w")
  note r1 = safeMoveMultiple_runs [OF sm]
  show ?thesis
  proof (cases ok)
    case False
    then have "recreateGroup H g tabs T w = w1"
      using sm by (simp add: recreateGroup_def)
    with r1 False assms
    have "runs H w (tl (group_requests T (g, tabs) BatchRejected)) (recreateGroup H g tabs T w)"
      by (simp add: group_requests_def)
    then show ?thesis by blast
  next
    case True
    obtain r w2 where gr: "chrome_tabs_group H ?ids T w1 = (r, w2)"
      by (cases "chrome_tabs_group H ?ids T w1")
    note r2 = chrome_tabs_group_runs [OF gr]
    have r1': "runs H w [TabsMove (Many ?ids) T (- 1) True] w1"
      using r1 True by simp
    show ?thesis
    proof (cases r)
      case (Inl e)
      then have "recreateGroup H g tabs T w = w2\<lparr>console := console w2 @ [RecreateGroupFailed e]\<rparr>"
        using sm gr True by (simp add: recreateGroup_def)
      moreover have "runs H w [TabsMove (Many ?ids) T (- 1) True, TabsGroup ?ids T None] w2"
        using runs_step [OF r1' r2] Inl by simp
      ultimately
      have "runs H w (tl (group_requests T (g, tabs) GroupingRejected)) (recreateGroup H g tabs T w)"
        using assms by (simp add: group_requests_def runs_console)
      then show ?thesis by blast
    next
      case (Inr n)
      obtain r3 w3 where
        up: "chrome_tabGroups_update H n (title g) (color g) (collapsed g) w2 = (r3, w3)"
        by (cases "chrome_tabGroups_update H n (title g) (color g) (collapsed g) w2")
      note r3 = chrome_tabGroups_update_runs [OF up]
      have "\<exists>c. recreateGroup H g tabs T w = w3\<lparr>console := c\<rparr>"
      proof (cases r3)
        case (Inl e)
        then have "recreateGroup H g tabs T w = w3\<lparr>console := console w3 @ [RecreateGroupFailed e]\<rparr>"
          using sm gr up True Inr by (simp add: recreateGroup_def)
        then show ?thesis by blast
      next
        case (Inr u)
        then have "recreateGroup H g tabs T w = w3\<lparr>console := console w3\<rparr>"
          using sm gr up True \<open>r = Inr n\<close> by (simp add: recreateGroup_def)
        then show ?thesis by blast
      qed
      then obtain c where eq: "recreateGroup H g tabs T w = w3\<lparr>console := c\<rparr>" ..
      have "runs H w [TabsMove (Many ?ids) T (- 1) True, TabsGroup ?ids T (Some n),
              TabGroupsUpdate n (title g) (color g) (collapsed g) (resolved r3)] w3"
        using runs_step [OF r1' runs_step [OF r2 r3]] Inr by simp
      with eq assms
      have "runs H w (tl (group_requests T (g, tabs) (Recreated n (resolved r3))))
              (recreateGroup H g tabs T w)"
        by (simp add: group_requests_def runs_console)
      then show ?thesis by blast
    qed
  qed
qed


lemma migrateTabGroups_runs:
  "\<exists>answers. length answers = length grouped \<and>
     runs H w (concat (map2 (group_requests T) grouped answers)) (migrateTabGroups H grouped T w)"
proof (induction grouped arbitrary: w)
  case Nil
  show ?case by (simp add: runs_refl)
next
  case (Cons gt rest)
  obtain g tabs where gt: "gt = (g, tabs)" by (cases gt)
  show ?case
  proof (cases "tabs = []")
    case True
    from Cons.IH [of w] obtain as where
      as: "length as = length rest"
      "runs H w (concat (map2 (group_requests T) rest as)) (migrateTabGroups H rest T w)"
      by blast
    from as gt True
    have "length (GroupMoved # as) = length (gt # rest) \<and>
          runs H w (concat (map2 (group_requests T) (gt # rest) (GroupMoved # as)))
            (migrateTabGroups H (gt # rest) T w)"
      by (simp add: group_requests_def)
    then show ?thesis by blast
  next
    case False
    obtain ok w1 where sm: "safeMoveGroup H (g_id g) T w = (ok, w1)"
      by (cases "safeMoveGroup H (g_id g) T w")
    note r1 = safeMoveGroup_runs [OF sm]
    show ?thesis
    proof (cases ok)
      case True
      from Cons.IH [of w1] obtain as where
        as: "length as = length rest"
        "runs H w1 (concat (map2 (group_requests T) rest as)) (migrateTabGroups H rest T w1)"
        by blast
      have eq: "migrateTabGroups H (gt # rest) T w = migrateTabGroups H rest T w1"
        using gt False sm True by simp
      have r1': "runs H w [TabGroupsMove (g_id g) T (- 1) True] w1"
        using r1 True by simp
      from runs_step [OF r1' as(2)] as(1) eq gt False
      have "length (GroupMoved # as) = length (gt # rest) \<and>
            runs H w (concat (map2 (group_requests T) (gt # rest) (GroupMoved # as)))
              (migrateTabGroups H (gt # rest) T w)"
        by (simp add: group_requests_def)
      then show ?thesis by blast
    next
      case no: False
      define w2 where "w2 = recreateGroup H g tabs T w1"
      from recreateGroup_runs [OF False, of H w1 T g] obtain a where
        a: "a \<noteq> GroupMoved" "runs H w1 (tl (group_requests T (g, tabs) a)) w2"
        unfolding w2_def by blast
      from Cons.IH [of w2] obtain as where
        as: "length as = length rest"
        "runs H w2 (concat (map2 (group_requests T) rest as)) (migrateTabGroups H rest T w2)"
        by blast
      have eq: "migrateTabGroups H (gt # rest) T w = migrateTabGroups H rest T w2"
        using gt False sm no by (simp add: w2_def)
      have r1': "runs H w [TabGroupsMove (g_id g) T (- 1) False] w1"
        using r1 no by simp
      have hd: "group_requests T (g, tabs) a
                  = TabGroupsMove (g_id g) T (- 1) False # tl (group_requests T (g, tabs) a)"
        using a(1) False by (cases a) (simp_all add: group_requests_def)
      have "runs H w (group_requests T (g, tabs) a) w2"
        using runs_step [OF r1' a(2)] hd by simp
      from runs_trans [OF this as(2)] as(1) eq gt
      have "length (a # as) = length (gt # rest) \<and>
            runs H w (concat (map2 (group_requests T) (gt # rest) (a # as)))
              (migrateTabGroups H (gt # rest) T w)"
        by simp
      then show ?thesis by blast
    qed
  qed
qed

lemma moveEach_runs:
  "\<exists>oks. length oks = length ids \<and>
     runs H w (map2 (\<lambda>i ok. TabsMove (One i) T (- 1) ok) ids oks) (moveEach H ids T w)"
proof (induction ids arbitrary: w)
  case Nil
  show ?case by (simp add: runs_refl)
next
  case (Cons i ids)
  obtain ok w1 where sm: "safeMove H i T TAB_POSITION_END w = (ok, w1)"
    by (cases "safeMove H i T TAB_POSITION_END w")
  have r1: "runs H w [TabsMove (One i) T (- 1) ok] w1"
    using safeMove_runs [OF sm] by (simp add: TAB_POSITION_END_def)
  from Cons.IH [of w1] obtain oks where
    oks: "length oks = length ids"
    "runs H w1 (map2 (\<lambda>i ok. TabsMove (One i) T (- 1) ok) ids oks) (moveEach H ids T w1)"
    by blast
  from runs_step [OF r1 oks(2)] oks(1) sm
  have "length (ok # oks) = length (i # ids) \<and>
        runs H w (map2 (\<lambda>i ok. TabsMove (One i) T (- 1) ok) (i # ids) (ok # oks))
          (moveEach H (i # ids) T w)"
    by simp
  then show ?case by blast
qed

lemma migrateTabs_runs:
  "\<exists>answer. (\<forall>oks. answer = Some oks \<longrightarrow> length oks = length ids) \<and>
     runs H w (ungrouped_requests T ids answer) (migrateTabs H ids T w)"
proof (cases "ids = []")
  case True
  then have "runs H w (ungrouped_requests T ids None) (migrateTabs H ids T w)"
    by (simp add: ungrouped_requests_def migrateTabs_def runs_refl)
  then show ?thesis by blast
next
  case False
  obtain ok w1 where sm: "safeMoveMultiple H ids T w = (ok, w1)"
    by (cases "safeMoveMultiple H ids T w")
  note r1 = safeMoveMultiple_runs [OF sm]
  show ?thesis
  proof (cases ok)
    case True
    then have "runs H w (ungrouped_requests T ids None) (migrateTabs H ids T w)"
      using r1 sm False by (simp add: ungrouped_requests_def migrateTabs_def)
    then show ?thesis by blast
  next
    case no: False
    from moveEach_runs [of ids H w1 T] obtain oks where
      oks: "length oks = length ids"
      "runs H w1 (map2 (\<lambda>i ok. TabsMove (One i) T (- 1) ok) ids oks) (moveEach H ids T w1)"
      by blast
    have r1': "runs H w [TabsMove (Many ids) T (- 1) False] w1"
      using r1 no by simp
    from runs_step [OF r1' oks(2)] sm no False
    have "runs H w (ungrouped_requests T ids (Some oks)) (migrateTabs H ids T w)"
      by (simp add: ungrouped_requests_def migrateTabs_def)
    with oks(1) show ?thesis by blast
  qed
qed

section \<open>What a classification returns\<close>

lemma Promise_all_Inr:
  "Promise_all rs = Inr xs \<Longrightarrow> rs = map Inr xs"
proof (induction rs arbitrary: xs)
  case Nil
  then show ?case by simp
next
  case (Cons r rs)
  then show ?case
    by (cases r) (auto split: sum.splits)
qed

lemma Promise_all_resolved:
  "rs = map Inr xs \<Longrightarrow> Promise_all rs = Inr xs"
  by (induction xs arbitrary: rs) auto

lemma classifyTabs_Inr:
  assumes "classifyTabs H tabs wid w = (Inr c, w')"
  shows "\<exists>groups groupTabs.
           tabGroups_query H wid (host w) = Inr groups
         \<and> map (\<lambda>g. tabs_query H wid (Some (g_id g)) (host w)) groups = map Inr groupTabs
         \<and> c = \<lparr>c_pinned = filter pinned tabs,
                c_grouped = zip groups groupTabs,
                c_ungrouped = filter (\<lambda>t. t_id t \<notin> set (concat (map (map t_id) groupTabs)))
                                (filter (\<lambda>t. \<not> pinned t) tabs)\<rparr>
         \<and> runs H w (TabGroupsQuery wid # map (\<lambda>g. TabsQuery wid (Some (g_id g))) groups) w'
         \<and> host w' = host w \<and> console w' = console w"
proof -
  obtain groups where g: "tabGroups_query H wid (host w) = Inr groups"
    using assms
    by (cases "tabGroups_query H wid (host w)")
       (simp_all add: classifyTabs_def chrome_tabGroups_query_def)
  obtain groupTabs where
    p: "Promise_all (map (\<lambda>g. tabs_query H wid (Some (g_id g)) (host w)) groups) = Inr groupTabs"
    using assms g
    by (cases "Promise_all (map (\<lambda>g. tabs_query H wid (Some (g_id g)) (host w)) groups)")
       (simp_all add: classifyTabs_def chrome_tabGroups_query_def Let_def)
  have rp: "replay H (map (\<lambda>g. TabsQuery wid (Some (g_id g))) gs) h = Some h" for gs h
    by (induction gs) simp_all
  from assms g p
  have "c = \<lparr>c_pinned = filter pinned tabs,
             c_grouped = zip groups groupTabs,
             c_ungrouped = filter (\<lambda>t. t_id t \<notin> set (concat (map (map t_id) groupTabs)))
                             (filter (\<lambda>t. \<not> pinned t) tabs)\<rparr>"
    and "w' = w\<lparr>calls := calls w @ TabGroupsQuery wid # map (\<lambda>g. TabsQuery wid (Some (g_id g))) groups\<rparr>"
    by (auto simp add: classifyTabs_def chrome_tabGroups_query_def Let_def)
  with g Promise_all_Inr [OF p] rp show ?thesis
    by (simp add: runs_def)
qed


section \<open>Histories of a window and of a merge\<close>

lemma replay_member_queries:
  "replay H (map (\<lambda>g :: tabGroup. TabsQuery wid (Some (g_id g))) gs) h = Some h"
  by (induction gs) simp_all

lemma classifyTabs_rejected:
  assumes "classifyTabs H tabs wid w = (Inl e, w')"
  shows "(\<exists>e'. tabGroups_query H wid (host w) = Inl e' \<and> runs H w [TabGroupsQuery wid] w')
       \<or> (\<exists>(groups :: tabGroup list) e'.
             tabGroups_query H wid (host w) = Inr groups
           \<and> Promise_all (map (\<lambda>g. tabs_query H wid (Some (g_id g)) (host w)) groups) = Inl e'
           \<and> runs H w (TabGroupsQuery wid # map (\<lambda>g. TabsQuery wid (Some (g_id g))) groups) w')"
proof (cases "tabGroups_query H wid (host w)")
  case (Inl a)
  with assms have "runs H w [TabGroupsQuery wid] w'"
    by (auto simp add: classifyTabs_def chrome_tabGroups_query_def runs_def)
  with Inl show ?thesis by blast
next
  case (Inr groups)
  with assms
  have "w' = w\<lparr>calls := calls w @ TabGroupsQuery wid # map (\<lambda>g. TabsQuery wid (Some (g_id g))) groups\<rparr>"
    by (auto simp add: classifyTabs_def chrome_tabGroups_query_def Let_def split: sum.splits)
  then have r: "runs H w (TabGroupsQuery wid # map (\<lambda>g. TabsQuery wid (Some (g_id g))) groups) w'"
    by (simp add: runs_def replay_member_queries)
  from assms Inr
  obtain e' where "Promise_all (map (\<lambda>g. tabs_query H wid (Some (g_id g)) (host w)) groups) = Inl e'"
    by (cases "Promise_all (map (\<lambda>g. tabs_query H wid (Some (g_id g)) (host w)) groups)")
       (simp_all add: classifyTabs_def chrome_tabGroups_query_def Let_def)
  with r Inr show ?thesis by blast
qed

lemma chrome_tabs_query_runs:
  "chrome_tabs_query H S g w = (r, w') \<Longrightarrow> runs H w [TabsQuery S g] w'"
  by (auto simp add: chrome_tabs_query_def runs_def)

lemma classified_member_queries:
  assumes "classifyTabs H tabs wid w = (Inr c, w')"
  shows "runs H w (TabGroupsQuery wid # map (\<lambda>gt. TabsQuery wid (Some (g_id (fst gt)))) (c_grouped c)) w'"
proof -
  from classifyTabs_Inr [OF assms] obtain groups groupTabs where
    q: "map (\<lambda>g. tabs_query H wid (Some (g_id g)) (host w)) groups = map Inr groupTabs"
    and c: "c = \<lparr>c_pinned = filter pinned tabs,
                c_grouped = zip groups groupTabs,
                c_ungrouped = filter (\<lambda>t. t_id t \<notin> set (concat (map (map t_id) groupTabs)))
                                (filter (\<lambda>t. \<not> pinned t) tabs)\<rparr>"
    and r: "runs H w (TabGroupsQuery wid # map (\<lambda>g. TabsQuery wid (Some (g_id g))) groups) w'"
    by blast
  have len: "length groups = length groupTabs"
    using q by (metis length_map)
  have "map (\<lambda>gt. TabsQuery wid (Some (g_id (fst gt)))) (zip groups groupTabs)
          = map (\<lambda>g. TabsQuery wid (Some (g_id g))) groups"
    using len by (induction groups groupTabs rule: list_induct2) simp_all
  with r c show ?thesis by simp
qed

lemma migrateWindow_phases:
  assumes q: "tabs_query H S None (host u) = Inr tabs" and ne: "tabs \<noteq> []"
    and cl: "classifyTabs H tabs S (snd (chrome_tabs_query H S None u)) = (Inr c, u')"
  shows "\<exists>a b d. complete (Migrated c a b d)
           \<and> migrateWindow H S T u =
               (Inr (), migrateTabs H (map t_id (c_ungrouped c)) T
                          (migrateTabGroups H (c_grouped c) T (migratePinnedTabs H (c_pinned c) T u')))
           \<and> runs H u (window_requests T S (Migrated c a b d)) (snd (migrateWindow H S T u))"
proof -
  define u1 where "u1 = snd (chrome_tabs_query H S None u)"
  have cq: "chrome_tabs_query H S None u = (Inr tabs, u1)"
    using q by (simp add: u1_def chrome_tabs_query_def)
  note r0 = chrome_tabs_query_runs [OF cq]
  have r1: "runs H u1 (TabGroupsQuery S # map (\<lambda>gt. TabsQuery S (Some (g_id (fst gt)))) (c_grouped c)) u'"
    using classified_member_queries [of H tabs S u1 c u'] cl by (simp add: u1_def)
  define u3 where "u3 = migratePinnedTabs H (c_pinned c) T u'"
  define u4 where "u4 = migrateTabGroups H (c_grouped c) T u3"
  define u5 where "u5 = migrateTabs H (map t_id (c_ungrouped c)) T u4"
  from migratePinnedTabs_runs [of "c_pinned c" H u' T] obtain a where
    a: "length a = length (c_pinned c)"
    "runs H u' (concat (map2 (pinned_requests T) (c_pinned c) a)) u3"
    unfolding u3_def by blast
  from migrateTabGroups_runs [of "c_grouped c" H u3 T] obtain b where
    b: "length b = length (c_grouped c)"
    "runs H u3 (concat (map2 (group_requests T) (c_grouped c) b)) u4"
    unfolding u4_def by blast
  from migrateTabs_runs [of "map t_id (c_ungrouped c)" H u4 T] obtain d where
    d: "\<forall>oks. d = Some oks \<longrightarrow> length oks = length (map t_id (c_ungrouped c))"
    "runs H u4 (ungrouped_requests T (map t_id (c_ungrouped c)) d) u5"
    unfolding u5_def by blast
  have mw: "migrateWindow H S T u = (Inr (), u5)"
    using q ne cl
    by (simp add: migrateWindow_def chrome_tabs_query_def u3_def u4_def u5_def Let_def)
  have comp: "complete (Migrated c a b d)"
    using a(1) b(1) d(1) by (cases d) simp_all
  have "runs H u ([TabsQuery S None]
          @ (TabGroupsQuery S # map (\<lambda>gt. TabsQuery S (Some (g_id (fst gt)))) (c_grouped c))
          @ concat (map2 (pinned_requests T) (c_pinned c) a)
          @ concat (map2 (group_requests T) (c_grouped c) b)
          @ ungrouped_requests T (map t_id (c_ungrouped c)) d) u5"
    by (rule runs_trans [OF r0 runs_trans [OF r1 runs_trans [OF a(2) runs_trans [OF b(2) d(2)]]]])
  then have "runs H u (window_requests T S (Migrated c a b d)) (snd (migrateWindow H S T u))"
    using mw by simp
  with comp mw show ?thesis
    unfolding u3_def u4_def u5_def by blast
qed

lemma observed_TabsRejected:
  "tabs_query H S None h = Inl e \<Longrightarrow> observed H S h TabsRejected"
  by (simp add: observed_def)

lemma observed_NoTabs:
  "tabs_query H S None h = Inr [] \<Longrightarrow> observed H S h NoTabs"
  by (simp add: observed_def)

lemma observed_GroupsRejected:
  "tabs_query H S None h = Inr tabs \<Longrightarrow> tabs \<noteq> [] \<Longrightarrow> tabGroups_query H S h = Inl e
     \<Longrightarrow> observed H S h GroupsRejected"
  by (simp add: observed_def)

lemma observed_MembersRejected:
  "tabs_query H S None h = Inr tabs \<Longrightarrow> tabs \<noteq> [] \<Longrightarrow> tabGroups_query H S h = Inr groups
     \<Longrightarrow> Promise_all (map (\<lambda>g. tabs_query H S (Some (g_id g)) h) groups) = Inl e
     \<Longrightarrow> observed H S h (MembersRejected groups)"
  by (simp add: observed_def)

lemma observed_Migrated:
  assumes "tabs_query H S None (host u) = Inr tabs" "tabs \<noteq> []"
    and "classifyTabs H tabs S (snd (chrome_tabs_query H S None u)) = (Inr c, u')"
  shows "observed H S (host u) (Migrated c a b d)"
proof -
  have h: "host (snd (chrome_tabs_query H S None u)) = host u"
    by (simp add: chrome_tabs_query_def)
  from classifyTabs_Inr [OF assms(3)] h obtain groups groupTabs where
    g: "tabGroups_query H S (host u) = Inr groups"
    and q: "map (\<lambda>g. tabs_query H S (Some (g_id g)) (host u)) groups = map Inr groupTabs"
    and c: "c = \<lparr>c_pinned = filter pinned tabs,
                c_grouped = zip groups groupTabs,
                c_ungrouped = filter (\<lambda>t. t_id t \<notin> set (concat (map (map t_id) groupTabs)))
                                (filter (\<lambda>t. \<not> pinned t) tabs)\<rparr>"
    by auto
  from assms(1,2) g Promise_all_resolved [OF q] c show ?thesis
    by (simp add: observed_def)
qed

lemma migrateWindow_observed:
  "\<exists>a. complete a \<and> observed H S (host u) a
       \<and> runs H u (window_requests T S a) (snd (migrateWindow H S T u))
       \<and> aborts a = (\<not> resolved (fst (migrateWindow H S T u)))"
proof (cases "tabs_query H S None (host u)")
  case (Inl e)
  then have "migrateWindow H S T u = (Inl e, snd (chrome_tabs_query H S None u))"
    by (simp add: migrateWindow_def chrome_tabs_query_def)
  moreover have "runs H u [TabsQuery S None] (snd (chrome_tabs_query H S None u))"
    by (simp add: chrome_tabs_query_def runs_def)
  ultimately
  have "complete TabsRejected \<and> observed H S (host u) TabsRejected
       \<and> runs H u (window_requests T S TabsRejected) (snd (migrateWindow H S T u))
       \<and> aborts TabsRejected = (\<not> resolved (fst (migrateWindow H S T u)))"
    using observed_TabsRejected [OF Inl] by (simp add: resolved_def)
  then show ?thesis by blast
next
  case (Inr tabs)
  define u1 where "u1 = snd (chrome_tabs_query H S None u)"
  have cq: "chrome_tabs_query H S None u = (Inr tabs, u1)"
    using Inr by (simp add: u1_def chrome_tabs_query_def)
  have h1: "host u1 = host u"
    by (simp add: u1_def chrome_tabs_query_def)
  note r0 = chrome_tabs_query_runs [OF cq]
  show ?thesis
  proof (cases "tabs = []")
    case True
    then have "migrateWindow H S T u = (Inr (), u1)"
      using cq by (simp add: migrateWindow_def)
    with r0 observed_NoTabs [of H S "host u"] Inr True
    have "complete NoTabs \<and> observed H S (host u) NoTabs
       \<and> runs H u (window_requests T S NoTabs) (snd (migrateWindow H S T u))
       \<and> aborts NoTabs = (\<not> resolved (fst (migrateWindow H S T u)))"
      by (simp add: resolved_def)
    then show ?thesis by blast
  next
    case False
    obtain r u2 where cl: "classifyTabs H tabs S u1 = (r, u2)"
      by (cases "classifyTabs H tabs S u1")
    show ?thesis
    proof (cases r)
      case (Inl e)
      then have mw: "migrateWindow H S T u = (Inl e, u2)"
        using cq False cl by (simp add: migrateWindow_def)
      from classifyTabs_rejected [of H tabs S u1 e u2] cl Inl h1
      consider e' where "tabGroups_query H S (host u) = Inl e'" "runs H u1 [TabGroupsQuery S] u2"
        | groups :: "tabGroup list" and e' where
          "tabGroups_query H S (host u) = Inr groups"
          "Promise_all (map (\<lambda>g. tabs_query H S (Some (g_id g)) (host u)) groups) = Inl e'"
          "runs H u1 (TabGroupsQuery S # map (\<lambda>g. TabsQuery S (Some (g_id g))) groups) u2"
        by auto
      then show ?thesis
      proof cases
        case 1
        from runs_step [OF r0 1(2)] mw observed_GroupsRejected [OF Inr False 1(1)]
        have "complete GroupsRejected \<and> observed H S (host u) GroupsRejected
            \<and> runs H u (window_requests T S GroupsRejected) (snd (migrateWindow H S T u))
            \<and> aborts GroupsRejected = (\<not> resolved (fst (migrateWindow H S T u)))"
          by (simp add: resolved_def)
        then show ?thesis by blast
      next
        case 2
        from runs_step [OF r0 2(3)] mw observed_MembersRejected [OF Inr False 2(1) 2(2)]
        have "complete (MembersRejected groups) \<and> observed H S (host u) (MembersRejected groups)
            \<and> runs H u (window_requests T S (MembersRejected groups)) (snd (migrateWindow H S T u))
            \<and> aborts (MembersRejected groups) = (\<not> resolved (fst (migrateWindow H S T u)))"
          by (simp add: resolved_def)
        then show ?thesis by blast
      qed
    next
      case (Inr c)
      have cl': "classifyTabs H tabs S (snd (chrome_tabs_query H S None u)) = (Inr c, u2)"
        using cl Inr by (simp add: u1_def)
      from migrateWindow_phases [OF \<open>tabs_query H S None (host u) = Inr tabs\<close> False cl', of T]
      obtain a b d where
        "complete (Migrated c a b d)"
        "migrateWindow H S T u =
               (Inr (), migrateTabs H (map t_id (c_ungrouped c)) T
                          (migrateTabGroups H (c_grouped c) T (migratePinnedTabs H (c_pinned c) T u2)))"
        "runs H u (window_requests T S (Migrated c a b d)) (snd (migrateWindow H S T u))"
        by blast
      with observed_Migrated [OF \<open>tabs_query H S None (host u) = Inr tabs\<close> False cl', of a b d]
      have "complete (Migrated c a b d) \<and> observed H S (host u) (Migrated c a b d)
            \<and> runs H u (window_requests T S (Migrated c a b d)) (snd (migrateWindow H S T u))
            \<and> aborts (Migrated c a b d) = (\<not> resolved (fst (migrateWindow H S T u)))"
        by (simp add: resolved_def)
      then show ?thesis by blast
    qed
  qed
qed

lemma migrateWindow_runs:
  "\<exists>a. complete a \<and> runs H u (window_requests T S a) (snd (migrateWindow H S T u))
       \<and> aborts a = (\<not> resolved (fst (migrateWindow H S T u)))"
  using migrateWindow_observed [of H S u T] by blast

lemma migrateEach_observed:
  "\<exists>answers. covers (length srcs) answers \<and> list_all complete answers
      \<and> merge_observed H T (map w_id srcs) (host w) answers
      \<and> runs H w (concat (map2 (window_requests T) (map w_id srcs) answers))
           (snd (migrateEach H srcs T w))"
proof (induction srcs arbitrary: w)
  case Nil
  have "covers (length []) [] \<and> list_all complete []
      \<and> merge_observed H T (map w_id []) (host w) []
      \<and> runs H w (concat (map2 (window_requests T) (map w_id []) []))
           (snd (migrateEach H [] T w))"
    by (simp add: runs_refl)
  then show ?case by blast
next
  case (Cons x srcs)
  obtain r w1 where mw: "migrateWindow H (w_id x) T w = (r, w1)"
    by (cases "migrateWindow H (w_id x) T w")
  from migrateWindow_observed [of H "w_id x" w T] mw obtain a where
    a: "complete a" "observed H (w_id x) (host w) a"
       "runs H w (window_requests T (w_id x) a) w1" "aborts a = (\<not> resolved r)"
    by auto
  have rp: "replay H (window_requests T (w_id x) a) (host w) = Some (host w1)"
    using a(3) by (simp add: runs_def)
  show ?case
  proof (cases r)
    case (Inl e)
    then have "migrateEach H (x # srcs) T w = (Inl e, w1)"
      using mw by simp
    with a Inl
    have "covers (length (x # srcs)) [a] \<and> list_all complete [a]
      \<and> merge_observed H T (map w_id (x # srcs)) (host w) [a]
      \<and> runs H w (concat (map2 (window_requests T) (map w_id (x # srcs)) [a]))
           (snd (migrateEach H (x # srcs) T w))"
      by (simp add: resolved_def)
    then show ?thesis by blast
  next
    case (Inr v)
    from Cons.IH [of w1] obtain as where
      as: "covers (length srcs) as" "list_all complete as"
      "merge_observed H T (map w_id srcs) (host w1) as"
      "runs H w1 (concat (map2 (window_requests T) (map w_id srcs) as)) (snd (migrateEach H srcs T w1))"
      by blast
    have "migrateEach H (x # srcs) T w = migrateEach H srcs T w1"
      using mw Inr by simp
    with a as Inr rp runs_trans [OF a(3) as(4)]
    have "covers (length (x # srcs)) (a # as) \<and> list_all complete (a # as)
      \<and> merge_observed H T (map w_id (x # srcs)) (host w) (a # as)
      \<and> runs H w (concat (map2 (window_requests T) (map w_id (x # srcs)) (a # as)))
           (snd (migrateEach H (x # srcs) T w))"
      by (simp add: resolved_def)
    then show ?thesis by blast
  qed
qed


lemma executeMerge_after_sources:
  assumes "getSourceWindows H T w = (Inr srcs, w0)"
  shows "\<exists>c. executeMerge H T w = (snd (migrateEach H srcs T w0))\<lparr>console := c\<rparr>"
proof -
  obtain r w1 where me: "migrateEach H srcs T w0 = (r, w1)"
    by (cases "migrateEach H srcs T w0")
  show ?thesis
  proof (cases r)
    case (Inl e)
    then have "executeMerge H T w = (snd (migrateEach H srcs T w0))
                 \<lparr>console := console w1 @ [MergeFailed e]\<rparr>"
      using assms me by (simp add: executeMerge_def)
    then show ?thesis by blast
  next
    case (Inr v)
    then have "executeMerge H T w = (snd (migrateEach H srcs T w0))\<lparr>console := console w1\<rparr>"
      using assms me by (simp add: executeMerge_def)
    then show ?thesis by blast
  qed
qed

section \<open>The reference browser keeps its tabs\<close>

lemma refHost_simps [simp]:
  "windows_get (refHost r) = ref_windows_get"
  "windows_getAll (refHost r) = ref_windows_getAll"
  "tabs_query (refHost r) = ref_tabs_query"
  "tabGroups_query (refHost r) = ref_tabGroups_query"
  "tabs_move (refHost r) = ref_tabs_move r"
  "tabs_update (refHost r) = ref_tabs_update r"
  "tabGroups_move (refHost r) = ref_tabGroups_move r"
  "tabs_group (refHost r) = ref_tabs_group r"
  "tabGroups_update (refHost r) = ref_tabGroups_update r"
  by (simp_all add: refHost_def)

lemma disband_tabs [simp]: "b_tabs (disband b) = b_tabs b"
  by (simp add: disband_def)

lemma mset_place: "mset (place idx moved strp) = mset strp + mset moved"
proof (cases "idx < 0")
  case True
  then show ?thesis by (simp add: place_def)
next
  case False
  have "mset (take (nat idx) strp @ moved @ drop (nat idx) strp)
          = mset ((take (nat idx) strp @ drop (nat idx) strp) @ moved)"
    by (simp only: mset_append ac_simps)
  also have "\<dots> = mset strp + mset moved"
    by (simp only: append_take_drop_id mset_append)
  finally show ?thesis
    using False by (simp only: place_def if_False)
qed

lemma mset_by_window:
  "mset (filter (\<lambda>t. t_windowId t \<noteq> T) xs) + mset (filter (\<lambda>t. t_windowId t = T) xs) = mset xs"
  by (induction xs) simp_all

lemma mset_relocate: "mset (relocate T idx moved rest) = mset rest + mset moved"
proof -
  have "mset (relocate T idx moved rest)
          = mset (filter (\<lambda>t. t_windowId t \<noteq> T) rest)
            + (mset (filter (\<lambda>t. t_windowId t = T) rest) + mset moved)"
    by (simp only: relocate_def mset_append mset_place)
  also have "\<dots> = (mset (filter (\<lambda>t. t_windowId t \<noteq> T) rest)
            + mset (filter (\<lambda>t. t_windowId t = T) rest)) + mset moved"
    by (simp only: add.assoc)
  also have "\<dots> = mset rest + mset moved"
    by (simp only: mset_by_window)
  finally show ?thesis .
qed

lemma set_relocate: "set (relocate T idx moved rest) = set rest \<union> set moved"
proof -
  have "set_mset (mset (relocate T idx moved rest)) = set_mset (mset rest + mset moved)"
    by (simp only: mset_relocate)
  then show ?thesis by simp
qed

lemma mset_pick_one:
  "i \<notin> set js \<Longrightarrow>
     mset (filter (\<lambda>t. t_id t = i) ts) + mset (filter (\<lambda>t. t_id t \<in> set js) ts)
       = mset (filter (\<lambda>t. t_id t = i \<or> t_id t \<in> set js) ts)"
  by (induction ts) auto

lemma mset_pick:
  "distinct js \<Longrightarrow>
     mset (concat (map (\<lambda>i. filter (\<lambda>t. t_id t = i) ts) js)) = mset (filter (\<lambda>t. t_id t \<in> set js) ts)"
proof (induction js)
  case Nil
  show ?case by simp
next
  case (Cons i js)
  have "mset (concat (map (\<lambda>i. filter (\<lambda>t. t_id t = i) ts) (i # js)))
          = mset (filter (\<lambda>t. t_id t = i) ts) + mset (concat (map (\<lambda>i. filter (\<lambda>t. t_id t = i) ts) js))"
    by (simp only: list.map concat.simps mset_append)
  also have "\<dots> = mset (filter (\<lambda>t. t_id t = i) ts) + mset (filter (\<lambda>t. t_id t \<in> set js) ts)"
    using Cons by simp
  also have "\<dots> = mset (filter (\<lambda>t. t_id t = i \<or> t_id t \<in> set js) ts)"
    using Cons.prems by (intro mset_pick_one) simp
  finally show ?case by (simp del: mset_filter)
qed

lemma arrive_id [simp]: "t_id (arrive T t) = t_id t"
  by (simp add: arrive_def)

lemma mset_split_ids:
  "mset (map t_id (filter (\<lambda>t. t_id t \<notin> A) ts)) + mset (map t_id (filter (\<lambda>t. t_id t \<in> A) ts))
     = mset (map t_id ts)"
  by (induction ts) simp_all


lemma ref_tabs_move_tabs:
  "\<not> r b (ReqMoveTabs a T idx) \<Longrightarrow>
     b_tabs (snd (ref_tabs_move r a T idx b)) =
       relocate T idx
         (map (arrive T) (concat (map (\<lambda>i. filter (\<lambda>t. t_id t = i) (b_tabs b)) (remdups (ids_of a)))))
         (filter (\<lambda>t. t_id t \<notin> set (ids_of a)) (b_tabs b))"
  by (simp add: ref_tabs_move_def Let_def)

lemma ref_tabs_move_rejected:
  "r b (ReqMoveTabs a T idx) \<Longrightarrow> ref_tabs_move r a T idx b = (Inl ''rejected'', b)"
  by (simp add: ref_tabs_move_def)

lemma ref_tabs_move_ids:
  "mset (map t_id (b_tabs (snd (ref_tabs_move r a T idx b)))) = mset (map t_id (b_tabs b))"
proof (cases "r b (ReqMoveTabs a T idx)")
  case True
  then show ?thesis by (simp add: ref_tabs_move_rejected)
next
  case False
  let ?ids = "ids_of a"
  let ?picked = "concat (map (\<lambda>i. filter (\<lambda>t. t_id t = i) (b_tabs b)) (remdups ?ids))"
  let ?rest = "filter (\<lambda>t. t_id t \<notin> set ?ids) (b_tabs b)"
  have p: "mset ?picked = mset (filter (\<lambda>t. t_id t \<in> set ?ids) (b_tabs b))"
    using mset_pick [of "remdups ?ids" "b_tabs b"] by simp
  have "mset (map t_id (map (arrive T) ?picked)) = image_mset t_id (mset ?picked)"
    by (simp add: comp_def)
  also have "\<dots> = mset (map t_id (filter (\<lambda>t. t_id t \<in> set ?ids) (b_tabs b)))"
    by (simp only: p mset_map)
  finally have m: "mset (map t_id (map (arrive T) ?picked))
                     = mset (map t_id (filter (\<lambda>t. t_id t \<in> set ?ids) (b_tabs b)))" .
  have "mset (map t_id (b_tabs (snd (ref_tabs_move r a T idx b))))
          = image_mset t_id (mset ?rest + mset (map (arrive T) ?picked))"
    by (simp only: ref_tabs_move_tabs [of r b a T idx, OF False] mset_map mset_relocate)
  also have "\<dots> = mset (map t_id ?rest) + mset (map t_id (map (arrive T) ?picked))"
    by (simp only: image_mset_union mset_map)
  also have "\<dots> = mset (map t_id (b_tabs b))"
    by (simp only: m mset_split_ids)
  finally show ?thesis .
qed

lemma ref_tabs_update_ids:
  "map t_id (b_tabs (snd (ref_tabs_update r i p b))) = map t_id (b_tabs b)"
  by (simp add: ref_tabs_update_def comp_def)

lemma mset_split_group:
  "mset (map t_id (filter (\<lambda>t. t_groupId t \<noteq> g) ts))
     + mset (map t_id (map (\<lambda>t. t\<lparr>t_windowId := T\<rparr>) (filter (\<lambda>t. t_groupId t = g) ts)))
     = mset (map t_id ts)"
  by (induction ts) simp_all

lemma ref_tabGroups_move_ids:
  "mset (map t_id (b_tabs (snd (ref_tabGroups_move r g T idx b)))) = mset (map t_id (b_tabs b))"
proof (cases "r b (ReqMoveGroup g T idx)")
  case True
  then show ?thesis by (simp add: ref_tabGroups_move_def)
next
  case False
  let ?moved = "map (\<lambda>t. t\<lparr>t_windowId := T\<rparr>) (filter (\<lambda>t. t_groupId t = g) (b_tabs b))"
  let ?rest = "filter (\<lambda>t. t_groupId t \<noteq> g) (b_tabs b)"
  have "b_tabs (snd (ref_tabGroups_move r g T idx b)) = relocate T idx ?moved ?rest"
    using False by (simp add: ref_tabGroups_move_def Let_def)
  then have "mset (map t_id (b_tabs (snd (ref_tabGroups_move r g T idx b))))
          = image_mset t_id (mset ?rest + mset ?moved)"
    by (simp only: mset_map mset_relocate)
  also have "\<dots> = mset (map t_id ?rest) + mset (map t_id ?moved)"
    by (simp only: image_mset_union mset_map)
  also have "\<dots> = mset (map t_id (b_tabs b))"
    by (rule mset_split_group)
  finally show ?thesis .
qed

lemma ref_tabs_group_ids:
  "map t_id (b_tabs (snd (ref_tabs_group r ids T b))) = map t_id (b_tabs b)"
  by (simp add: ref_tabs_group_def Let_def comp_def if_distrib [of t_id] cong: if_cong)

lemma ref_tabGroups_update_ids:
  "b_tabs (snd (ref_tabGroups_update r g ti co cl b)) = b_tabs b"
  by (simp add: ref_tabGroups_update_def)

lemma perform_ids:
  "mset (map t_id (b_tabs (perform (refHost r) c b))) = mset (map t_id (b_tabs b))"
  by (cases c)
     (simp_all del: mset_map add: ref_tabs_move_ids ref_tabs_update_ids ref_tabGroups_move_ids
        ref_tabs_group_ids ref_tabGroups_update_ids)

lemma replay_ids:
  "replay (refHost r) R b = Some b' \<Longrightarrow> mset (map t_id (b_tabs b')) = mset (map t_id (b_tabs b))"
proof (induction R arbitrary: b)
  case Nil
  then show ?case by simp
next
  case (Cons c R)
  then have "replay (refHost r) R (perform (refHost r) c b) = Some b'"
    by (simp split: if_splits)
  from Cons.IH [OF this] show ?case
    by (simp only: perform_ids)
qed

lemma runs_ids:
  "runs (refHost r) w R w' \<Longrightarrow>
     mset (map t_id (b_tabs (host w'))) = mset (map t_id (b_tabs (host w)))"
  by (auto simp add: runs_def dest: replay_ids)


section \<open>Moving a tab to the front\<close>

lemma safeMove_host:
  "host (snd (safeMove H i T idx w)) = snd (tabs_move H (One i) T idx (host w))"
  by (simp add: safeMove_def chrome_tabs_move_def split: prod.splits sum.splits)

lemma safeMove_ok:
  "fst (safeMove H i T idx w) = resolved (fst (tabs_move H (One i) T idx (host w)))"
  by (simp add: safeMove_def chrome_tabs_move_def resolved_def split: prod.splits sum.splits)

lemma chrome_tabs_update_host:
  "host (snd (chrome_tabs_update H i p w)) = snd (tabs_update H i p (host w))"
  by (simp add: chrome_tabs_update_def split: prod.splits)

lemma ref_tabs_move_accepted:
  "\<not> r b (ReqMoveTabs a T idx) \<Longrightarrow> resolved (fst (ref_tabs_move r a T idx b))"
  by (simp add: ref_tabs_move_def resolved_def Let_def)

lemma the_tab_with_id:
  "distinct (map t_id ts) \<Longrightarrow> i \<in> t_id ` set ts \<Longrightarrow> map t_id (filter (\<lambda>t. t_id t = i) ts) = [i]"
proof (induction ts)
  case Nil
  then show ?case by simp
next
  case (Cons t ts)
  show ?case
  proof (cases "t_id t = i")
    case True
    have "\<forall>x \<in> set ts. t_id x \<noteq> i"
      using Cons.prems(1) True by (metis distinct.simps(2) imageI list.simps(9) list.set_map)
    then have "filter (\<lambda>t. t_id t = i) ts = []"
      by (simp add: filter_empty_conv)
    with True show ?thesis by simp
  next
    case False
    with Cons show ?thesis by auto
  qed
qed

lemma arrive_window [simp]: "t_windowId (arrive T t) = T"
  by (simp add: arrive_def)

lemma strip_relocate_front:
  assumes "\<forall>t \<in> set moved. t_windowId t = T"
  shows "filter (\<lambda>t. t_windowId t = T) (relocate T 0 moved rest)
           = moved @ filter (\<lambda>t. t_windowId t = T) rest"
proof -
  have "filter (\<lambda>t. t_windowId t = T) moved = moved"
    using assms by (simp add: filter_id_conv)
  then show ?thesis
    by (simp add: relocate_def place_def)
qed

lemma ref_move_front:
  assumes acc: "\<not> r b (ReqMoveTabs (One i) T 0)"
    and d: "distinct (map t_id (b_tabs b))"
    and ex: "i \<in> t_id ` set (b_tabs b)"
  shows "map t_id (strip T (snd (ref_tabs_move r (One i) T 0 b)))
           = i # filter (\<lambda>j. j \<noteq> i) (map t_id (strip T b))"
proof -
  let ?moved = "map (arrive T) (filter (\<lambda>t. t_id t = i) (b_tabs b))"
  let ?rest = "filter (\<lambda>t. t_id t \<noteq> i) (b_tabs b)"
  have tabs: "b_tabs (snd (ref_tabs_move r (One i) T 0 b)) = relocate T 0 ?moved ?rest"
    using ref_tabs_move_tabs [of r b "One i" T 0, OF acc] by simp
  have "strip T (snd (ref_tabs_move r (One i) T 0 b))
          = ?moved @ filter (\<lambda>t. t_windowId t = T) ?rest"
    unfolding strip_def tabs by (rule strip_relocate_front) simp
  moreover have "map t_id ?moved = [i]"
    using the_tab_with_id [OF d ex] by (simp add: comp_def)
  moreover have "map t_id (filter (\<lambda>t. t_windowId t = T) ?rest)
                   = filter (\<lambda>j. j \<noteq> i) (map t_id (strip T b))"
    by (simp add: strip_def filter_map comp_def conj_commute)
  ultimately show ?thesis by simp
qed

lemma ref_update_strip:
  "map t_id (strip T (snd (ref_tabs_update r i p b))) = map t_id (strip T b)"
proof (cases "r b (ReqUpdateTab i p)")
  case True
  then show ?thesis by (simp add: ref_tabs_update_def)
next
  case False
  have "map t_id (filter (\<lambda>t. t_windowId t = T) (map (\<lambda>t. if t_id t = i then t\<lparr>pinned := p\<rparr> else t) ts))
          = map t_id (filter (\<lambda>t. t_windowId t = T) ts)" for ts
    by (induction ts) simp_all
  with False show ?thesis
    by (simp add: ref_tabs_update_def strip_def)
qed

section \<open>The reference browser keeps group identifiers distinct\<close>

lemma foldr_max_ge: "x \<in> set xs \<Longrightarrow> x \<le> foldr max xs (0::int)"
  by (induction xs) auto

lemma foldr_max_nonneg: "0 \<le> foldr max xs (0::int)"
  by (induction xs) auto

lemma fresh_group_id_positive: "0 < fresh_group_id b"
  using foldr_max_nonneg [of "map g_id (b_groups b) @ map t_groupId (b_tabs b)"]
  by (simp add: fresh_group_id_def)

lemma fresh_group_id_no_group: "g \<in> set (b_groups b) \<Longrightarrow> g_id g \<noteq> fresh_group_id b"
  using foldr_max_ge [of "g_id g" "map g_id (b_groups b) @ map t_groupId (b_tabs b)"]
  by (auto simp add: fresh_group_id_def)

lemma fresh_group_id_no_tab: "t \<in> set (b_tabs b) \<Longrightarrow> t_groupId t \<noteq> fresh_group_id b"
  using foldr_max_ge [of "t_groupId t" "map g_id (b_groups b) @ map t_groupId (b_tabs b)"]
  by (auto simp add: fresh_group_id_def)

lemma ref_tabs_move_groups_distinct:
  "distinct (map g_id (b_groups b)) \<Longrightarrow>
     distinct (map g_id (b_groups (snd (ref_tabs_move r a T idx b))))"
  by (simp add: ref_tabs_move_def Let_def disband_def distinct_map_filter)

lemma ref_tabs_update_groups: "b_groups (snd (ref_tabs_update r i p b)) = b_groups b"
  by (simp add: ref_tabs_update_def)

lemma ref_tabGroups_move_group_ids:
  "map g_id (b_groups (snd (ref_tabGroups_move r g T idx b))) = map g_id (b_groups b)"
  by (simp add: ref_tabGroups_move_def Let_def comp_def if_distrib [of g_id] cong: if_cong)

lemma distinct_ids_snoc_filter:
  "distinct (map g_id gs) \<Longrightarrow> g_id x \<notin> g_id ` set gs \<Longrightarrow>
     distinct (map g_id (filter P (gs @ [x])))"
  by (rule distinct_map_filter) simp

lemma ref_tabs_group_groups:
  "\<not> r b (ReqGroupTabs ids T) \<Longrightarrow>
     b_groups (snd (ref_tabs_group r ids T b))
       = filter (\<lambda>g. g_id g \<in> t_groupId ` set (b_tabs (snd (ref_tabs_group r ids T b))))
           (b_groups b @ [\<lparr>g_id = fresh_group_id b, g_windowId = T, title = [],
                            color = ''grey'', collapsed = False\<rparr>])"
  by (simp add: ref_tabs_group_def Let_def disband_def)

lemma ref_tabs_group_groups_distinct:
  assumes "distinct (map g_id (b_groups b))"
  shows "distinct (map g_id (b_groups (snd (ref_tabs_group r ids T b))))"
proof (cases "r b (ReqGroupTabs ids T)")
  case True
  with assms show ?thesis by (simp add: ref_tabs_group_def)
next
  case False
  let ?new = "\<lparr>g_id = fresh_group_id b, g_windowId = T, title = [],
              color = ''grey'', collapsed = False\<rparr>"
  have "g_id ?new \<notin> g_id ` set (b_groups b)"
    by (metis fresh_group_id_no_group imageE tabGroup.select_convs(1))
  from distinct_ids_snoc_filter [OF assms this]
  show ?thesis
    by (subst ref_tabs_group_groups [of r b ids T, OF False])
qed

lemma ref_tabGroups_update_group_ids:
  "map g_id (b_groups (snd (ref_tabGroups_update r g ti co cl b))) = map g_id (b_groups b)"
  by (simp add: ref_tabGroups_update_def comp_def if_distrib [of g_id] cong: if_cong)

lemma perform_groups_distinct:
  "distinct (map g_id (b_groups b)) \<Longrightarrow>
     distinct (map g_id (b_groups (perform (refHost r) c b)))"
  by (cases c)
     (simp_all add: ref_tabs_move_groups_distinct ref_tabs_update_groups
        ref_tabGroups_move_group_ids ref_tabs_group_groups_distinct ref_tabGroups_update_group_ids)

lemma replay_groups_distinct:
  "replay (refHost r) R b = Some b' \<Longrightarrow> distinct (map g_id (b_groups b)) \<Longrightarrow>
     distinct (map g_id (b_groups b'))"
proof (induction R arbitrary: b)
  case Nil
  then show ?case by simp
next
  case (Cons c R)
  from Cons.prems(1) have "replay (refHost r) R (perform (refHost r) c b) = Some b'"
    by (simp split: if_splits)
  from Cons.IH [OF this perform_groups_distinct [OF Cons.prems(2)]] show ?case .
qed

lemma runs_groups_distinct:
  "runs (refHost r) w R w' \<Longrightarrow> distinct (map g_id (b_groups (host w))) \<Longrightarrow>
     distinct (map g_id (b_groups (host w')))"
  by (auto simp add: runs_def dest: replay_groups_distinct)

section \<open>Requests that leave a group alone\<close>

lemma holds_group_id: "holds k W ti co cl M b \<Longrightarrow> k \<in> g_id ` set (b_groups b)"
  by (auto simp add: holds_def)

lemma holds_member_tab:
  "holds k W ti co cl M b \<Longrightarrow> t \<in> set (b_tabs b) \<Longrightarrow> t_groupId t = k \<Longrightarrow> t_id t \<in> M"
  by (auto simp add: holds_def members_def)

lemma group_id_present: "t \<in> set ts \<Longrightarrow> t_groupId t = k \<Longrightarrow> k \<in> t_groupId ` set ts"
  by (metis imageI)

lemma holds_has_member:
  assumes "holds k W ti co cl M b" and "M \<noteq> {}"
  shows "k \<in> t_groupId ` set (b_tabs b)"
proof -
  from assms have "{t \<in> set (b_tabs b). t_groupId t = k} \<noteq> {}"
    by (auto simp add: holds_def members_def)
  then obtain t where "t \<in> set (b_tabs b)" "t_groupId t = k"
    by blast
  then show ?thesis by (metis imageI)
qed

text \<open>
  A state with the same groups up to disbanding, and the same tabs in group \<open>k\<close>.
\<close>

lemma holds_transfer:
  assumes h: "holds k W ti co cl M b"
    and groups: "\<And>g. g \<in> set (b_groups b) \<Longrightarrow> g_id g = k \<Longrightarrow> g \<in> set (b_groups b')"
    and tabs: "{t \<in> set (b_tabs b'). t_groupId t = k} = {t \<in> set (b_tabs b). t_groupId t = k}"
  shows "holds k W ti co cl M b'"
proof -
  from h obtain g where g: "g \<in> set (b_groups b)" "g_id g = k" "g_windowId g = W"
    "title g = ti" "color g = co" "collapsed g = cl"
    by (auto simp add: holds_def)
  from groups [OF g(1,2)] g have 1: "\<exists>g \<in> set (b_groups b'). g_id g = k \<and> g_windowId g = W
                               \<and> title g = ti \<and> color g = co \<and> collapsed g = cl"
    by blast
  from h have 2: "members k b' = M"
    by (simp add: holds_def members_def tabs)
  have 3: "\<forall>t \<in> set (b_tabs b'). t_groupId t = k \<longrightarrow> t_windowId t = W"
  proof (intro ballI impI)
    fix t assume "t \<in> set (b_tabs b')" "t_groupId t = k"
    then have "t \<in> {t \<in> set (b_tabs b). t_groupId t = k}"
      using tabs by blast
    with h show "t_windowId t = W"
      by (simp add: holds_def)
  qed
  from 1 2 3 show ?thesis by (simp add: holds_def)
qed

lemma ref_tabs_move_frame:
  assumes h: "holds k W ti co cl M b" and ne: "M \<noteq> {}" and k: "k \<noteq> NO_GROUP"
    and dis: "set (ids_of a) \<inter> M = {}"
  shows "holds k W ti co cl M (snd (ref_tabs_move r a T idx b))"
proof (cases "r b (ReqMoveTabs a T idx)")
  case True
  with h show ?thesis by (simp add: ref_tabs_move_rejected)
next
  case False
  let ?b' = "snd (ref_tabs_move r a T idx b)"
  let ?picked = "concat (map (\<lambda>i. filter (\<lambda>t. t_id t = i) (b_tabs b)) (remdups (ids_of a)))"
  have tabs': "set (b_tabs ?b') = {t \<in> set (b_tabs b). t_id t \<notin> set (ids_of a)} \<union> arrive T ` set ?picked"
    by (simp only: ref_tabs_move_tabs [of r b a T idx, OF False] set_relocate set_filter set_map)
  have moved: "t_groupId (arrive T t) \<noteq> k" if "t \<in> set ?picked" for t
  proof -
    from that have "t_id t \<in> set (ids_of a)" "t \<in> set (b_tabs b)"
      by auto
    with dis holds_member_tab [OF h] have "t_groupId t \<noteq> k"
      by blast
    with k show ?thesis by (simp add: arrive_def)
  qed
  have kept: "t_id t \<notin> set (ids_of a)" if "t \<in> set (b_tabs b)" "t_groupId t = k" for t
    using dis holds_member_tab [OF h that] by blast
  have same: "{t \<in> set (b_tabs ?b'). t_groupId t = k} = {t \<in> set (b_tabs b). t_groupId t = k}"
    unfolding tabs' using moved kept by blast
  have "k \<in> t_groupId ` set (b_tabs ?b')"
  proof -
    from holds_has_member [OF h ne] obtain t where "t \<in> set (b_tabs b)" "t_groupId t = k"
      by auto
    with same show ?thesis by blast
  qed
  then have "g \<in> set (b_groups ?b')" if "g \<in> set (b_groups b)" "g_id g = k" for g
    using that False by (simp add: ref_tabs_move_def Let_def disband_def)
  from holds_transfer [OF h this same] show ?thesis .
qed


lemma holds_transfer_map:
  assumes h: "holds k W ti co cl M b"
    and groups: "\<And>g. g \<in> set (b_groups b) \<Longrightarrow> g_id g = k \<Longrightarrow> g \<in> set (b_groups b')"
    and tabs: "b_tabs b' = map f (b_tabs b)"
    and f: "\<And>t. t \<in> set (b_tabs b) \<Longrightarrow>
              t_id (f t) = t_id t \<and> (t_groupId (f t) = k \<longleftrightarrow> t_groupId t = k)
              \<and> (t_groupId t = k \<longrightarrow> t_windowId (f t) = t_windowId t)"
  shows "holds k W ti co cl M b'"
proof -
  from h obtain g where g: "g \<in> set (b_groups b)" "g_id g = k" "g_windowId g = W"
    "title g = ti" "color g = co" "collapsed g = cl"
    by (auto simp add: holds_def)
  from groups [OF g(1,2)] g have 1: "\<exists>g \<in> set (b_groups b'). g_id g = k \<and> g_windowId g = W
                               \<and> title g = ti \<and> color g = co \<and> collapsed g = cl"
    by blast
  have "t_id ` {t \<in> set (map f (b_tabs b)). t_groupId t = k}
          = t_id ` {t \<in> set (b_tabs b). t_groupId t = k}" (is "?L = ?R")
  proof (intro equalityI subsetI)
    fix i assume "i \<in> ?L"
    then obtain t where t: "t \<in> set (b_tabs b)" "t_groupId (f t) = k" "i = t_id (f t)"
      by auto
    with f [OF t(1)] have "t_groupId t = k" "i = t_id t"
      by simp_all
    with t(1) show "i \<in> ?R" by blast
  next
    fix i assume "i \<in> ?R"
    then obtain t where t: "t \<in> set (b_tabs b)" "t_groupId t = k" "i = t_id t"
      by auto
    with f [OF t(1)] have "f t \<in> set (map f (b_tabs b))" "t_groupId (f t) = k" "i = t_id (f t)"
      by simp_all
    then show "i \<in> ?L" by blast
  qed
  with h have 2: "members k b' = M"
    by (simp add: holds_def members_def tabs)
  have 3: "\<forall>t \<in> set (b_tabs b'). t_groupId t = k \<longrightarrow> t_windowId t = W"
  proof (intro ballI impI)
    fix t' assume "t' \<in> set (b_tabs b')" "t_groupId t' = k"
    then obtain t where t: "t \<in> set (b_tabs b)" "t' = f t" "t_groupId (f t) = k"
      unfolding tabs by auto
    with f [OF t(1)] have "t_groupId t = k" "t_windowId t' = t_windowId t"
      by simp_all
    with h t(1) show "t_windowId t' = W"
      by (simp add: holds_def)
  qed
  from 1 2 3 show ?thesis by (simp add: holds_def)
qed

lemma ref_tabs_update_frame:
  assumes "holds k W ti co cl M b"
  shows "holds k W ti co cl M (snd (ref_tabs_update r i p b))"
proof (cases "r b (ReqUpdateTab i p)")
  case True
  with assms show ?thesis by (simp add: ref_tabs_update_def)
next
  case False
  show ?thesis
  proof (rule holds_transfer_map [OF assms])
    show "b_tabs (snd (ref_tabs_update r i p b))
            = map (\<lambda>t. if t_id t = i then t\<lparr>pinned := p\<rparr> else t) (b_tabs b)"
      using False by (simp add: ref_tabs_update_def)
  qed (simp_all add: ref_tabs_update_groups)
qed

lemma ref_tabGroups_move_frame:
  assumes h: "holds k W ti co cl M b" and j: "j \<noteq> k"
  shows "holds k W ti co cl M (snd (ref_tabGroups_move r j T idx b))"
proof (cases "r b (ReqMoveGroup j T idx)")
  case True
  with h show ?thesis by (simp add: ref_tabGroups_move_def)
next
  case False
  let ?b' = "snd (ref_tabGroups_move r j T idx b)"
  have tabs': "set (b_tabs ?b') = {t \<in> set (b_tabs b). t_groupId t \<noteq> j}
                 \<union> (\<lambda>t. t\<lparr>t_windowId := T\<rparr>) ` {t \<in> set (b_tabs b). t_groupId t = j}"
    using False by (simp add: ref_tabGroups_move_def Let_def set_relocate)
  have same: "{t \<in> set (b_tabs ?b'). t_groupId t = k} = {t \<in> set (b_tabs b). t_groupId t = k}"
    unfolding tabs' using j by auto
  have "g \<in> set (b_groups ?b')" if "g \<in> set (b_groups b)" "g_id g = k" for g
    using that False j by (force simp add: ref_tabGroups_move_def Let_def)
  from holds_transfer [OF h this same] show ?thesis .
qed

lemma ref_tabGroups_move_arrives:
  assumes h: "holds k S ti co cl M b" and acc: "\<not> r b (ReqMoveGroup k T idx)"
  shows "holds k T ti co cl M (snd (ref_tabGroups_move r k T idx b))"
proof -
  let ?b' = "snd (ref_tabGroups_move r k T idx b)"
  have tabs': "set (b_tabs ?b') = {t \<in> set (b_tabs b). t_groupId t \<noteq> k}
                 \<union> (\<lambda>t. t\<lparr>t_windowId := T\<rparr>) ` {t \<in> set (b_tabs b). t_groupId t = k}"
    using acc by (simp add: ref_tabGroups_move_def Let_def set_relocate)
  have mem: "{t \<in> set (b_tabs ?b'). t_groupId t = k}
               = (\<lambda>t. t\<lparr>t_windowId := T\<rparr>) ` {t \<in> set (b_tabs b). t_groupId t = k}"
    unfolding tabs' by auto
  from h obtain g where g: "g \<in> set (b_groups b)" "g_id g = k"
    "title g = ti" "color g = co" "collapsed g = cl"
    by (auto simp add: holds_def)
  have "g\<lparr>g_windowId := T\<rparr> \<in> set (b_groups ?b')"
    using g acc by (force simp add: ref_tabGroups_move_def Let_def)
  with g have 1: "\<exists>g \<in> set (b_groups ?b'). g_id g = k \<and> g_windowId g = T
                               \<and> title g = ti \<and> color g = co \<and> collapsed g = cl"
    by (intro bexI [of _ "g\<lparr>g_windowId := T\<rparr>"]) simp_all
  have 2: "members k ?b' = M"
    using h by (simp add: holds_def members_def mem image_image)
  have 3: "\<forall>t \<in> set (b_tabs ?b'). t_groupId t = k \<longrightarrow> t_windowId t = T"
  proof (intro ballI impI)
    fix t assume "t \<in> set (b_tabs ?b')" "t_groupId t = k"
    then have "t \<in> (\<lambda>t. t\<lparr>t_windowId := T\<rparr>) ` {t \<in> set (b_tabs b). t_groupId t = k}"
      using mem by blast
    then show "t_windowId t = T" by auto
  qed
  from 1 2 3 show ?thesis by (simp add: holds_def)
qed


lemma ref_tabs_group_tabs:
  "\<not> r b (ReqGroupTabs ids T) \<Longrightarrow>
     b_tabs (snd (ref_tabs_group r ids T b))
       = map (\<lambda>t. if t_id t \<in> set ids
                   then t\<lparr>t_windowId := T, pinned := False, t_groupId := fresh_group_id b\<rparr>
                   else t) (b_tabs b)"
  by (simp add: ref_tabs_group_def Let_def)

lemma ref_tabs_group_answer:
  "\<not> r b (ReqGroupTabs ids T) \<Longrightarrow> fst (ref_tabs_group r ids T b) = Inr (fresh_group_id b)"
  by (simp add: ref_tabs_group_def Let_def)

lemma ref_tabs_group_frame:
  assumes h: "holds k W ti co cl M b" and ne: "M \<noteq> {}" and dis: "set ids \<inter> M = {}"
  shows "holds k W ti co cl M (snd (ref_tabs_group r ids T b))"
proof (cases "r b (ReqGroupTabs ids T)")
  case True
  with h show ?thesis by (simp add: ref_tabs_group_def)
next
  case False
  let ?b' = "snd (ref_tabs_group r ids T b)"
  let ?f = "\<lambda>t. if t_id t \<in> set ids
                 then t\<lparr>t_windowId := T, pinned := False, t_groupId := fresh_group_id b\<rparr>
                 else t"
  have fresh: "fresh_group_id b \<noteq> k"
    by (metis holds_group_id [OF h] fresh_group_id_no_group imageE)
  have f: "t_id (?f t) = t_id t \<and> (t_groupId (?f t) = k \<longleftrightarrow> t_groupId t = k)
              \<and> (t_groupId t = k \<longrightarrow> t_windowId (?f t) = t_windowId t)"
    if "t \<in> set (b_tabs b)" for t
  proof (cases "t_id t \<in> set ids")
    case True
    then have "t_groupId t \<noteq> k"
      using dis holds_member_tab [OF h that] by blast
    with True fresh show ?thesis by simp
  next
    case False
    then show ?thesis by simp
  qed
  have tabs': "b_tabs ?b' = map ?f (b_tabs b)"
    by (rule ref_tabs_group_tabs [of r b ids T, OF False])
  have "k \<in> t_groupId ` set (b_tabs ?b')"
  proof -
    from holds_has_member [OF h ne] obtain t where t: "t \<in> set (b_tabs b)" "t_groupId t = k"
      by auto
    have a: "?f t \<in> set (b_tabs ?b')"
      unfolding tabs' set_map using t(1) by (rule imageI)
    have b: "t_groupId (?f t) = k"
      using f [OF t(1)] t(2) by blast
    show ?thesis by (rule group_id_present [OF a b])
  qed
  then have "g \<in> set (b_groups ?b')" if "g \<in> set (b_groups b)" "g_id g = k" for g
    using that by (subst ref_tabs_group_groups [of r b ids T, OF False]) simp
  from holds_transfer_map [OF h this tabs' f] show ?thesis .
qed

lemma ref_tabGroups_update_frame:
  assumes h: "holds k W ti co cl M b" and j: "j \<noteq> k"
  shows "holds k W ti co cl M (snd (ref_tabGroups_update r j ti' co' cl' b))"
proof (rule holds_transfer [OF h])
  show "g \<in> set (b_groups (snd (ref_tabGroups_update r j ti' co' cl' b)))"
    if "g \<in> set (b_groups b)" "g_id g = k" for g
    using that j by (force simp add: ref_tabGroups_update_def)
qed (simp add: ref_tabGroups_update_ids)

lemma image_unchanged: "(\<And>x. g (f x) = g x) \<Longrightarrow> g ` f ` A = g ` A"
  by (simp add: image_image)

lemma ref_tabs_group_creates:
  assumes acc: "\<not> r b (ReqGroupTabs ids T)"
    and M: "set ids = M" "M \<noteq> {}" "M \<subseteq> t_id ` set (b_tabs b)"
  shows "holds (fresh_group_id b) T [] ''grey'' False M (snd (ref_tabs_group r ids T b))"
proof -
  let ?n = "fresh_group_id b"
  let ?b' = "snd (ref_tabs_group r ids T b)"
  let ?f = "\<lambda>t. if t_id t \<in> set ids then t\<lparr>t_windowId := T, pinned := False, t_groupId := ?n\<rparr> else t"
  let ?new = "\<lparr>g_id = ?n, g_windowId = T, title = [], color = ''grey'', collapsed = False\<rparr>"
  have tabs': "b_tabs ?b' = map ?f (b_tabs b)"
    by (rule ref_tabs_group_tabs [of r b ids T, OF acc])
  have mem: "{t \<in> set (b_tabs ?b'). t_groupId t = ?n} = ?f ` {t \<in> set (b_tabs b). t_id t \<in> set ids}"
    unfolding tabs' using fresh_group_id_no_tab [of _ b] by auto
  have 2: "members ?n ?b' = M"
  proof -
    have "t_id ` ?f ` {t \<in> set (b_tabs b). t_id t \<in> set ids}
                 = t_id ` {t \<in> set (b_tabs b). t_id t \<in> set ids}"
      by (rule image_unchanged) simp
    also have "\<dots> = M"
      using M(1,3) by blast
    finally have "t_id ` ?f ` {t \<in> set (b_tabs b). t_id t \<in> set ids} = M" .
    then show ?thesis by (simp add: members_def mem)
  qed
  have 3: "\<forall>t \<in> set (b_tabs ?b'). t_groupId t = ?n \<longrightarrow> t_windowId t = T"
  proof (intro ballI impI)
    fix t assume "t \<in> set (b_tabs ?b')" "t_groupId t = ?n"
    then have "t \<in> ?f ` {t \<in> set (b_tabs b). t_id t \<in> set ids}"
      using mem by blast
    then obtain t0 where "t_id t0 \<in> set ids" "t = ?f t0"
      by blast
    then show "t_windowId t = T" by simp
  qed
  have "?n \<in> t_groupId ` set (b_tabs ?b')"
  proof -
    from 2 M(2) have "{t \<in> set (b_tabs ?b'). t_groupId t = ?n} \<noteq> {}"
      by (auto simp add: members_def)
    then obtain t where t: "t \<in> set (b_tabs ?b')" "t_groupId t = ?n" by blast
    show ?thesis by (rule group_id_present [OF t])
  qed
  then have "?new \<in> set (b_groups ?b')"
    by (subst ref_tabs_group_groups [of r b ids T, OF acc]) simp
  then have 1: "\<exists>g \<in> set (b_groups ?b'). g_id g = ?n \<and> g_windowId g = T
                               \<and> title g = [] \<and> color g = ''grey'' \<and> collapsed g = False"
    by (intro bexI [of _ ?new]) simp_all
  from 1 2 3 show ?thesis by (simp add: holds_def)
qed

lemma ref_tabGroups_update_sets:
  assumes h: "holds n T ti0 co0 cl0 M b" and acc: "\<not> r b (ReqUpdateGroup n ti co cl)"
  shows "holds n T ti co cl M (snd (ref_tabGroups_update r n ti co cl b))"
proof -
  let ?b' = "snd (ref_tabGroups_update r n ti co cl b)"
  from h obtain g where g: "g \<in> set (b_groups b)" "g_id g = n" "g_windowId g = T"
    by (auto simp add: holds_def)
  have "g\<lparr>title := ti, color := co, collapsed := cl\<rparr> \<in> set (b_groups ?b')"
    using g acc by (force simp add: ref_tabGroups_update_def)
  with g have 1: "\<exists>g \<in> set (b_groups ?b'). g_id g = n \<and> g_windowId g = T
                               \<and> title g = ti \<and> color g = co \<and> collapsed g = cl"
    by (intro bexI [of _ "g\<lparr>title := ti, color := co, collapsed := cl\<rparr>"]) simp_all
  have "b_tabs ?b' = b_tabs b"
    by (rule ref_tabGroups_update_ids)
  with h have 2: "members n ?b' = M"
    and 3: "\<forall>t \<in> set (b_tabs ?b'). t_groupId t = n \<longrightarrow> t_windowId t = T"
    by (simp_all add: holds_def members_def)
  from 1 2 3 show ?thesis by (simp add: holds_def)
qed

section \<open>Phases that leave a group alone\<close>

lemma safeMoveMultiple_host:
  "host (snd (safeMoveMultiple H ids T w)) = snd (tabs_move H (Many ids) T (- 1) (host w))"
  by (simp add: safeMoveMultiple_def chrome_tabs_move_def TAB_POSITION_END_def
      split: prod.splits sum.splits)

lemma safeMoveMultiple_ok:
  "fst (safeMoveMultiple H ids T w) = resolved (fst (tabs_move H (Many ids) T (- 1) (host w)))"
  by (simp add: safeMoveMultiple_def chrome_tabs_move_def TAB_POSITION_END_def resolved_def
      split: prod.splits sum.splits)

lemma safeMoveGroup_host:
  "host (snd (safeMoveGroup H g T w)) = snd (tabGroups_move H g T (- 1) (host w))"
  by (simp add: safeMoveGroup_def chrome_tabGroups_move_def TAB_POSITION_END_def
      split: prod.splits sum.splits)

lemma safeMoveGroup_ok:
  "fst (safeMoveGroup H g T w) = resolved (fst (tabGroups_move H g T (- 1) (host w)))"
  by (simp add: safeMoveGroup_def chrome_tabGroups_move_def TAB_POSITION_END_def resolved_def
      split: prod.splits sum.splits)

lemma chrome_tabs_group_host:
  "host (snd (chrome_tabs_group H ids T w)) = snd (tabs_group H ids T (host w))"
  "fst (chrome_tabs_group H ids T w) = fst (tabs_group H ids T (host w))"
  by (simp_all add: chrome_tabs_group_def split: prod.splits)

lemma chrome_tabGroups_update_host:
  "host (snd (chrome_tabGroups_update H g ti co cl w)) = snd (tabGroups_update H g ti co cl (host w))"
  "fst (chrome_tabGroups_update H g ti co cl w) = fst (tabGroups_update H g ti co cl (host w))"
  by (simp_all add: chrome_tabGroups_update_def split: prod.splits)

text \<open>The browser state after \<open>recreateGroup\<close>, request by request.\<close>

lemma recreateGroup_host:
  "host (recreateGroup H g ts T w) =
     (let ids = map t_id ts;
          b1 = snd (tabs_move H (Many ids) T (- 1) (host w))
      in if \<not> resolved (fst (tabs_move H (Many ids) T (- 1) (host w))) then b1
         else (case fst (tabs_group H ids T b1) of
                 Inl e \<Rightarrow> snd (tabs_group H ids T b1)
               | Inr n \<Rightarrow> snd (tabGroups_update H n (title g) (color g) (collapsed g)
                                (snd (tabs_group H ids T b1)))))"
proof -
  let ?ids = "map t_id ts"
  obtain ok w1 where sm: "safeMoveMultiple H ?ids T w = (ok, w1)"
    by (cases "safeMoveMultiple H ?ids T w")
  have h1: "host w1 = snd (tabs_move H (Many ?ids) T (- 1) (host w))"
    and ok: "ok = resolved (fst (tabs_move H (Many ?ids) T (- 1) (host w)))"
    using safeMoveMultiple_host [of H ?ids T w] safeMoveMultiple_ok [of H ?ids T w] sm by simp_all
  show ?thesis
  proof (cases ok)
    case False
    then show ?thesis
      using sm h1 ok by (simp add: recreateGroup_def Let_def)
  next
    case True
    obtain r2 w2 where gr: "chrome_tabs_group H ?ids T w1 = (r2, w2)"
      by (cases "chrome_tabs_group H ?ids T w1")
    have h2: "host w2 = snd (tabs_group H ?ids T (host w1))" "fst (tabs_group H ?ids T (host w1)) = r2"
      using chrome_tabs_group_host [of H ?ids T w1] gr by simp_all
    show ?thesis
    proof (cases r2)
      case (Inl e)
      then show ?thesis
        using sm gr True h1 h2 ok by (simp add: recreateGroup_def Let_def)
    next
      case (Inr n)
      obtain r3 w3 where up: "chrome_tabGroups_update H n (title g) (color g) (collapsed g) w2 = (r3, w3)"
        by (cases "chrome_tabGroups_update H n (title g) (color g) (collapsed g) w2")
      have h3: "host w3 = snd (tabGroups_update H n (title g) (color g) (collapsed g) (host w2))"
        using chrome_tabGroups_update_host(1) [of H n "title g" "color g" "collapsed g" w2] up by simp
      have "host (recreateGroup H g ts T w) = host w3"
        using sm gr up True Inr by (cases r3) (simp_all add: recreateGroup_def Let_def)
      moreover have "fst (tabs_group H ?ids T (snd (tabs_move H (Many ?ids) T (- 1) (host w)))) = Inr n"
        using h1 h2(2) Inr by simp
      ultimately show ?thesis
        using h1 h2(1) h3 ok True by (simp add: Let_def)
    qed
  qed
qed

lemma ref_tabs_group_Inr:
  "fst (ref_tabs_group r ids T b) = Inr n \<Longrightarrow> n = fresh_group_id b \<and> \<not> r b (ReqGroupTabs ids T)"
  by (simp add: ref_tabs_group_def Let_def split: if_splits)

lemma recreateGroup_frame:
  assumes h: "holds k W ti co cl M (host w)" and ne: "M \<noteq> {}" and k: "k \<noteq> NO_GROUP"
    and dis: "t_id ` set ts \<inter> M = {}"
  shows "holds k W ti co cl M (host (recreateGroup (refHost r) g ts T w))"
proof -
  let ?ids = "map t_id ts"
  let ?b1 = "snd (ref_tabs_move r (Many ?ids) T (- 1) (host w))"
  let ?b2 = "snd (ref_tabs_group r ?ids T ?b1)"
  have d: "set (ids_of (Many ?ids)) \<inter> M = {}" "set ?ids \<inter> M = {}"
    using dis by simp_all
  have h1: "holds k W ti co cl M ?b1"
    by (rule ref_tabs_move_frame [OF h ne k d(1)])
  have h2: "holds k W ti co cl M ?b2"
    by (rule ref_tabs_group_frame [OF h1 ne d(2)])
  have h3: "holds k W ti co cl M (snd (ref_tabGroups_update r n (title g) (color g) (collapsed g) ?b2))"
    if "fst (ref_tabs_group r ?ids T ?b1) = Inr n" for n
  proof -
    from ref_tabs_group_Inr [OF that] have "n = fresh_group_id ?b1" by simp
    then have "n \<noteq> k"
      by (metis holds_group_id [OF h1] fresh_group_id_no_group imageE)
    from ref_tabGroups_update_frame [OF h2 this] show ?thesis .
  qed
  show ?thesis
    using h1 h2 h3 by (simp add: recreateGroup_host Let_def split: sum.splits)
qed

lemma migratePinnedTabs_frame:
  assumes "holds k W ti co cl M (host w)" and "M \<noteq> {}" and "k \<noteq> NO_GROUP"
    and "t_id ` set tabs \<inter> M = {}"
  shows "holds k W ti co cl M (host (migratePinnedTabs (refHost r) tabs T w))"
  using assms
proof (induction tabs arbitrary: w)
  case Nil
  then show ?case by simp
next
  case (Cons t tabs)
  let ?H = "refHost r"
  obtain ok w1 where sm: "safeMove ?H (t_id t) T TAB_POSITION_START w = (ok, w1)"
    by (cases "safeMove ?H (t_id t) T TAB_POSITION_START w")
  have "host w1 = snd (ref_tabs_move r (One (t_id t)) T TAB_POSITION_START (host w))"
    using safeMove_host [of ?H "t_id t" T TAB_POSITION_START w] sm by simp
  moreover have "set (ids_of (One (t_id t))) \<inter> M = {}"
    using Cons.prems(4) by simp
  ultimately have h1: "holds k W ti co cl M (host w1)"
    using ref_tabs_move_frame [OF Cons.prems(1,2,3)] by simp
  have rest: "t_id ` set tabs \<inter> M = {}"
    using Cons.prems(4) by auto
  show ?case
  proof (cases ok)
    case True
    define w2 where "w2 = snd (chrome_tabs_update ?H (t_id t) True w1)"
    have "host w2 = snd (ref_tabs_update r (t_id t) True (host w1))"
      by (simp add: w2_def chrome_tabs_update_host)
    then have "holds k W ti co cl M (host w2)"
      using ref_tabs_update_frame [OF h1] by simp
    from Cons.IH [OF this Cons.prems(2,3) rest] show ?thesis
      using sm True by (simp add: w2_def)
  next
    case False
    from Cons.IH [OF h1 Cons.prems(2,3) rest] show ?thesis
      using sm False by simp
  qed
qed


lemma ref_tabGroups_move_keeps:
  assumes h: "holds k W ti co cl M b" and j: "j = k \<longrightarrow> W = T"
  shows "holds k W ti co cl M (snd (ref_tabGroups_move r j T idx b))"
proof (cases "j = k")
  case False
  from ref_tabGroups_move_frame [OF h False] show ?thesis .
next
  case True
  show ?thesis
  proof (cases "r b (ReqMoveGroup k T idx)")
    case rejected: True
    with h True show ?thesis by (simp add: ref_tabGroups_move_def)
  next
    case False
    from ref_tabGroups_move_arrives [where r = r and T = T and idx = idx, OF h False] True j
    show ?thesis by simp
  qed
qed

lemma migrateTabGroups_frame:
  assumes "holds k W ti co cl M (host w)" and "M \<noteq> {}" and "k \<noteq> NO_GROUP"
    and "\<forall>gt \<in> set gs. t_id ` set (snd gt) \<inter> M = {} \<and> (g_id (fst gt) = k \<longrightarrow> W = T)"
  shows "holds k W ti co cl M (host (migrateTabGroups (refHost r) gs T w))"
  using assms
proof (induction gs arbitrary: w)
  case Nil
  then show ?case by simp
next
  case (Cons gt gs)
  let ?H = "refHost r"
  obtain g ts where gt: "gt = (g, ts)" by (cases gt)
  have rest: "\<forall>gt \<in> set gs. t_id ` set (snd gt) \<inter> M = {} \<and> (g_id (fst gt) = k \<longrightarrow> W = T)"
    using Cons.prems(4) by simp
  show ?case
  proof (cases "ts = []")
    case True
    from Cons.IH [OF Cons.prems(1,2,3) rest] show ?thesis
      using gt True by simp
  next
    case False
    obtain ok w1 where sm: "safeMoveGroup ?H (g_id g) T w = (ok, w1)"
      by (cases "safeMoveGroup ?H (g_id g) T w")
    have "host w1 = snd (ref_tabGroups_move r (g_id g) T (- 1) (host w))"
      using safeMoveGroup_host [of ?H "g_id g" T w] sm by simp
    moreover have "g_id g = k \<longrightarrow> W = T"
      using Cons.prems(4) gt by simp
    ultimately have h1: "holds k W ti co cl M (host w1)"
      using ref_tabGroups_move_keeps [OF Cons.prems(1)] by simp
    show ?thesis
    proof (cases ok)
      case True
      from Cons.IH [OF h1 Cons.prems(2,3) rest] show ?thesis
        using gt False sm True by simp
    next
      case no: False
      have "t_id ` set ts \<inter> M = {}"
        using Cons.prems(4) gt by simp
      from recreateGroup_frame [OF h1 Cons.prems(2,3) this]
      have "holds k W ti co cl M (host (recreateGroup ?H g ts T w1))" .
      from Cons.IH [OF this Cons.prems(2,3) rest] show ?thesis
        using gt False sm no by simp
    qed
  qed
qed

lemma moveEach_frame:
  assumes "holds k W ti co cl M (host w)" and "M \<noteq> {}" and "k \<noteq> NO_GROUP"
    and "set ids \<inter> M = {}"
  shows "holds k W ti co cl M (host (moveEach (refHost r) ids T w))"
  using assms
proof (induction ids arbitrary: w)
  case Nil
  then show ?case by simp
next
  case (Cons i ids)
  let ?w1 = "snd (safeMove (refHost r) i T TAB_POSITION_END w)"
  have "host ?w1 = snd (ref_tabs_move r (One i) T TAB_POSITION_END (host w))"
    by (simp add: safeMove_host)
  moreover have "set (ids_of (One i)) \<inter> M = {}"
    using Cons.prems(4) by simp
  ultimately have h1: "holds k W ti co cl M (host ?w1)"
    using ref_tabs_move_frame [OF Cons.prems(1,2,3)] by simp
  have "set ids \<inter> M = {}"
    using Cons.prems(4) by auto
  from Cons.IH [OF h1 Cons.prems(2,3) this] show ?case by simp
qed

lemma migrateTabs_frame:
  assumes h: "holds k W ti co cl M (host w)" and ne: "M \<noteq> {}" and k: "k \<noteq> NO_GROUP"
    and dis: "set ids \<inter> M = {}"
  shows "holds k W ti co cl M (host (migrateTabs (refHost r) ids T w))"
proof (cases "ids = []")
  case True
  with h show ?thesis by (simp add: migrateTabs_def)
next
  case False
  let ?H = "refHost r"
  obtain ok w1 where sm: "safeMoveMultiple ?H ids T w = (ok, w1)"
    by (cases "safeMoveMultiple ?H ids T w")
  have "host w1 = snd (ref_tabs_move r (Many ids) T (- 1) (host w))"
    using safeMoveMultiple_host [of ?H ids T w] sm by simp
  moreover have "set (ids_of (Many ids)) \<inter> M = {}"
    using dis by simp
  ultimately have h1: "holds k W ti co cl M (host w1)"
    using ref_tabs_move_frame [OF h ne k] by simp
  show ?thesis
  proof (cases ok)
    case True
    with h1 sm False show ?thesis by (simp add: migrateTabs_def)
  next
    case no: False
    from moveEach_frame [OF h1 ne k dis] show ?thesis
      using sm False no by (simp add: migrateTabs_def)
  qed
qed


section \<open>The migration of one group\<close>

lemma holds_members_exist: "holds k W ti co cl M b \<Longrightarrow> M \<subseteq> t_id ` set (b_tabs b)"
  by (auto simp add: holds_def members_def)

lemma ref_tabs_move_id_set:
  "t_id ` set (b_tabs (snd (ref_tabs_move r a T idx b))) = t_id ` set (b_tabs b)"
proof -
  have "set (map t_id (b_tabs (snd (ref_tabs_move r a T idx b)))) = set (map t_id (b_tabs b))"
    by (rule mset_eq_setD) (rule ref_tabs_move_ids)
  then show ?thesis by simp
qed

lemma ref_tabGroups_move_resolved:
  "resolved (fst (ref_tabGroups_move r g T idx b)) = (\<not> r b (ReqMoveGroup g T idx))"
  by (simp add: ref_tabGroups_move_def resolved_def Let_def)

lemma ref_tabGroups_move_rejected:
  "r b (ReqMoveGroup g T idx) \<Longrightarrow> snd (ref_tabGroups_move r g T idx b) = b"
  by (simp add: ref_tabGroups_move_def)

lemma group_step_establishes:
  assumes h: "holds (g_id G) S (title G) (color G) (collapsed G) M (host w)"
    and ne: "M \<noteq> {}" and k: "g_id G \<noteq> NO_GROUP" and ts: "t_id ` set ts = M"
    and ok: "(\<forall>b. \<not> r b (ReqMoveGroup (g_id G) T (- 1)))
           \<or> (\<forall>b. \<not> r b (ReqMoveTabs (Many (map t_id ts)) T (- 1))
                  \<and> \<not> r b (ReqGroupTabs (map t_id ts) T)
                  \<and> (\<forall>n. \<not> r b (ReqUpdateGroup n (title G) (color G) (collapsed G))))"
  shows "\<exists>k'. k' \<noteq> NO_GROUP
           \<and> holds k' T (title G) (color G) (collapsed G) M
                (host (migrateTabGroups (refHost r) [(G, ts)] T w))"
proof -
  let ?H = "refHost r"
  let ?ids = "map t_id ts"
  have tsne: "ts \<noteq> []"
    using ne ts by auto
  obtain ok1 w1 where sm: "safeMoveGroup ?H (g_id G) T w = (ok1, w1)"
    by (cases "safeMoveGroup ?H (g_id G) T w")
  have h1: "host w1 = snd (ref_tabGroups_move r (g_id G) T (- 1) (host w))"
    using safeMoveGroup_host [of ?H "g_id G" T w] sm by simp
  have ok1: "ok1 = (\<not> r (host w) (ReqMoveGroup (g_id G) T (- 1)))"
    using safeMoveGroup_ok [of ?H "g_id G" T w] sm by (simp add: ref_tabGroups_move_resolved)
  show ?thesis
  proof (cases ok1)
    case True
    then have acc: "\<not> r (host w) (ReqMoveGroup (g_id G) T (- 1))"
      using ok1 by simp
    have "holds (g_id G) T (title G) (color G) (collapsed G) M (host w1)"
      unfolding h1
      by (rule ref_tabGroups_move_arrives [where r = r and T = T and idx = "- 1", OF h acc])
    moreover have "migrateTabGroups ?H [(G, ts)] T w = w1"
      using sm True tsne by simp
    ultimately show ?thesis using k by auto
  next
    case False
    then have rej: "r (host w) (ReqMoveGroup (g_id G) T (- 1))"
      using ok1 by simp
    with ok have fb: "\<And>b. \<not> r b (ReqMoveTabs (Many ?ids) T (- 1))"
      "\<And>b. \<not> r b (ReqGroupTabs ?ids T)"
      "\<And>b n. \<not> r b (ReqUpdateGroup n (title G) (color G) (collapsed G))"
      by blast+
    have hw1: "host w1 = host w"
      using h1 rej by (simp add: ref_tabGroups_move_rejected)
    let ?b1 = "snd (ref_tabs_move r (Many ?ids) T (- 1) (host w))"
    let ?n = "fresh_group_id ?b1"
    let ?b2 = "snd (ref_tabs_group r ?ids T ?b1)"
    let ?b3 = "snd (ref_tabGroups_update r ?n (title G) (color G) (collapsed G) ?b2)"
    have r1: "resolved (fst (ref_tabs_move r (Many ?ids) T (- 1) (host w)))"
      by (rule ref_tabs_move_accepted) (rule fb(1))
    have r2: "fst (ref_tabs_group r ?ids T ?b1) = Inr ?n"
      by (rule ref_tabs_group_answer) (rule fb(2))
    have "host (recreateGroup ?H G ts T w1) = ?b3"
      using r1 r2 hw1 by (simp add: recreateGroup_host Let_def)
    moreover have "migrateTabGroups ?H [(G, ts)] T w = recreateGroup ?H G ts T w1"
      using sm False tsne by simp
    ultimately have res: "host (migrateTabGroups ?H [(G, ts)] T w) = ?b3"
      by simp
    have "M \<subseteq> t_id ` set (b_tabs ?b1)"
      using holds_members_exist [OF h] by (simp only: ref_tabs_move_id_set)
    moreover have "set ?ids = M"
      using ts by simp
    ultimately have "holds ?n T [] ''grey'' False M ?b2"
      using ne by (intro ref_tabs_group_creates fb(2))
    then have "holds ?n T (title G) (color G) (collapsed G) M ?b3"
      by (rule ref_tabGroups_update_sets) (rule fb(3))
    moreover have "?n \<noteq> NO_GROUP"
      using fresh_group_id_positive [of ?b1] by (simp add: NO_GROUP_def)
    ultimately show ?thesis
      using res by auto
  qed
qed

lemma migrateTabGroups_append:
  "migrateTabGroups H (xs @ ys) T w = migrateTabGroups H ys T (migrateTabGroups H xs T w)"
proof (induction xs arbitrary: w)
  case Nil
  show ?case by simp
next
  case (Cons gt xs)
  obtain g ts where gt: "gt = (g, ts)" by (cases gt)
  show ?case
    using Cons.IH gt by (simp split: prod.splits bool.splits)
qed

lemma groups_establish:
  assumes h: "holds (g_id G) S (title G) (color G) (collapsed G) M (host w)"
    and ne: "M \<noteq> {}" and k: "g_id G \<noteq> NO_GROUP" and ts: "t_id ` set ts = M"
    and ok: "(\<forall>b. \<not> r b (ReqMoveGroup (g_id G) T (- 1)))
           \<or> (\<forall>b. \<not> r b (ReqMoveTabs (Many (map t_id ts)) T (- 1))
                  \<and> \<not> r b (ReqGroupTabs (map t_id ts) T)
                  \<and> (\<forall>n. \<not> r b (ReqUpdateGroup n (title G) (color G) (collapsed G))))"
    and pre: "\<forall>gt \<in> set pre. t_id ` set (snd gt) \<inter> M = {} \<and> g_id (fst gt) \<noteq> g_id G"
    and post: "\<forall>gt \<in> set post. t_id ` set (snd gt) \<inter> M = {}"
  shows "\<exists>k'. k' \<noteq> NO_GROUP
           \<and> holds k' T (title G) (color G) (collapsed G) M
                (host (migrateTabGroups (refHost r) (pre @ (G, ts) # post) T w))"
proof -
  let ?H = "refHost r"
  define w1 where "w1 = migrateTabGroups ?H pre T w"
  define w2 where "w2 = migrateTabGroups ?H [(G, ts)] T w1"
  have "\<forall>gt \<in> set pre. t_id ` set (snd gt) \<inter> M = {} \<and> (g_id (fst gt) = g_id G \<longrightarrow> S = T)"
    using pre by simp
  from migrateTabGroups_frame [OF h ne k this]
  have h1: "holds (g_id G) S (title G) (color G) (collapsed G) M (host w1)"
    by (simp add: w1_def)
  from group_step_establishes [OF h1 ne k ts ok] obtain k' where
    k': "k' \<noteq> NO_GROUP" "holds k' T (title G) (color G) (collapsed G) M (host w2)"
    unfolding w2_def by blast
  have "\<forall>gt \<in> set post. t_id ` set (snd gt) \<inter> M = {} \<and> (g_id (fst gt) = k' \<longrightarrow> T = T)"
    using post by simp
  from migrateTabGroups_frame [OF k'(2) ne k'(1) this]
  have "holds k' T (title G) (color G) (collapsed G) M (host (migrateTabGroups ?H post T w2))" .
  moreover have "migrateTabGroups ?H (pre @ (G, ts) # post) T w = migrateTabGroups ?H post T w2"
    using migrateTabGroups_append [of ?H pre "(G, ts) # post" T w]
      migrateTabGroups_append [of ?H "[(G, ts)]" post T w1]
    by (simp add: w1_def w2_def)
  ultimately show ?thesis
    using k'(1) by auto
qed

section \<open>The migration of a window of the reference browser\<close>

lemma Promise_all_map_Inr: "Promise_all (map (\<lambda>x. Inr (f x)) xs) = Inr (map f xs)"
  by (induction xs) simp_all

lemma zip_with_map: "zip xs (map f xs) = map (\<lambda>x. (x, f x)) xs"
  by (induction xs) simp_all

lemma ref_classifyTabs:
  "\<exists>w2. classifyTabs (refHost r) tabs S w1 =
      (Inr \<lparr>c_pinned = filter pinned tabs,
            c_grouped = map (\<lambda>g. (g, filter (\<lambda>t. t_windowId t = S \<and> t_groupId t = g_id g)
                                        (b_tabs (host w1))))
                          (filter (\<lambda>g. g_windowId g = S) (b_groups (host w1))),
            c_ungrouped =
              filter (\<lambda>t. t_id t \<notin> set (concat (map (map t_id)
                        (map (\<lambda>g. filter (\<lambda>t. t_windowId t = S \<and> t_groupId t = g_id g)
                                   (b_tabs (host w1)))
                           (filter (\<lambda>g. g_windowId g = S) (b_groups (host w1)))))))
                (filter (\<lambda>t. \<not> pinned t) tabs)\<rparr>, w2)
    \<and> host w2 = host w1"
proof -
  let ?groups = "filter (\<lambda>g. g_windowId g = S) (b_groups (host w1))"
  let ?mem = "\<lambda>g. filter (\<lambda>t. t_windowId t = S \<and> t_groupId t = g_id g) (b_tabs (host w1))"
  have "map (\<lambda>g. tabs_query (refHost r) S (Some (g_id g)) (host w1)) ?groups
          = map (\<lambda>g. Inr (?mem g)) ?groups"
    by (simp add: ref_tabs_query_def)
  then have "Promise_all (map (\<lambda>g. tabs_query (refHost r) S (Some (g_id g)) (host w1)) ?groups)
          = Inr (map ?mem ?groups)"
    by (simp only: Promise_all_map_Inr)
  moreover have "tabGroups_query (refHost r) S (host w1) = Inr ?groups"
    by (simp add: ref_tabGroups_query_def)
  ultimately show ?thesis
    by (simp add: classifyTabs_def chrome_tabGroups_query_def Let_def zip_with_map)
qed


lemma unique_group:
  assumes h: "holds k T ti co cl M b" and ne: "M \<noteq> {}"
    and W1: "distinct (map t_id (b_tabs b))" and W2: "distinct (map g_id (b_groups b))"
  shows "\<exists>g'. {g \<in> set (b_groups b). g_windowId g = T \<and> members (g_id g) b = M} = {g'}
              \<and> title g' = ti \<and> color g' = co \<and> collapsed g' = cl
              \<and> (\<forall>t \<in> set (b_tabs b). t_groupId t = g_id g' \<longrightarrow> t_windowId t = T)"
proof -
  from h obtain g' where g': "g' \<in> set (b_groups b)" "g_id g' = k" "g_windowId g' = T"
    "title g' = ti" "color g' = co" "collapsed g' = cl" and m: "members k b = M"
    and win: "\<forall>t \<in> set (b_tabs b). t_groupId t = k \<longrightarrow> t_windowId t = T"
    by (auto simp add: holds_def)
  have inj_t: "inj_on t_id (set (b_tabs b))" and inj_g: "inj_on g_id (set (b_groups b))"
    using W1 W2 by (simp_all add: distinct_map)
  have "g = g'" if g: "g \<in> set (b_groups b)" "members (g_id g) b = M" for g
  proof -
    from ne obtain i where i: "i \<in> M" by blast
    from i g(2) obtain t where t: "t \<in> set (b_tabs b)" "t_groupId t = g_id g" "t_id t = i"
      by (auto simp add: members_def)
    from i m obtain t' where t': "t' \<in> set (b_tabs b)" "t_groupId t' = k" "t_id t' = i"
      by (auto simp add: members_def)
    from inj_t t(1,3) t'(1,3) have "t = t'"
      by (simp add: inj_on_def)
    with t(2) t'(2) g'(2) have "g_id g = g_id g'" by simp
    with inj_g g(1) g'(1) show ?thesis
      by (simp add: inj_on_def)
  qed
  with g' m have "{g \<in> set (b_groups b). g_windowId g = T \<and> members (g_id g) b = M} = {g'}"
    by blast
  with g' win show ?thesis by blast
qed

lemma migrateWindow_group:
  fixes G :: tabGroup
  assumes W1: "distinct (map t_id (b_tabs (host w)))"
    and W2: "distinct (map g_id (b_groups (host w)))"
    and G: "G \<in> set (b_groups (host w))" and GS: "g_windowId G = S" and k: "g_id G \<noteq> NO_GROUP"
    and mem: "\<forall>t \<in> set (b_tabs (host w)). t_groupId t = g_id G \<longrightarrow> t_windowId t = S \<and> \<not> pinned t"
    and ne: "members (g_id G) (host w) \<noteq> {}"
    and ok: "(\<forall>b. \<not> r b (ReqMoveGroup (g_id G) T (- 1)))
           \<or> (\<forall>b. \<not> r b (ReqMoveTabs
                         (Many (map t_id (filter (\<lambda>t. t_windowId t = S \<and> t_groupId t = g_id G)
                                           (b_tabs (host w))))) T (- 1))
                  \<and> \<not> r b (ReqGroupTabs
                         (map t_id (filter (\<lambda>t. t_windowId t = S \<and> t_groupId t = g_id G)
                                     (b_tabs (host w)))) T)
                  \<and> (\<forall>n. \<not> r b (ReqUpdateGroup n (title G) (color G) (collapsed G))))"
  shows "\<exists>k'. holds k' T (title G) (color G) (collapsed G) (members (g_id G) (host w))
                (host (snd (migrateWindow (refHost r) S T w)))"
proof -
  let ?H = "refHost r"
  let ?b = "host w"
  let ?M = "members (g_id G) ?b"
  let ?tabs = "filter (\<lambda>t. t_windowId t = S) (b_tabs ?b)"
  let ?groups = "filter (\<lambda>g. g_windowId g = S) (b_groups ?b)"
  let ?mem = "\<lambda>g. filter (\<lambda>t. t_windowId t = S \<and> t_groupId t = g_id g) (b_tabs ?b)"
  let ?f = "\<lambda>g. (g, ?mem g)"
  define w1 where "w1 = snd (chrome_tabs_query ?H S None w)"
  have hw1: "host w1 = ?b"
    by (simp add: w1_def chrome_tabs_query_def)
  have q: "tabs_query ?H S None ?b = Inr ?tabs"
    by (simp add: ref_tabs_query_def)
  from ne obtain t0 where t0: "t0 \<in> set (b_tabs ?b)" "t_groupId t0 = g_id G"
    by (auto simp add: members_def)
  with mem have "t0 \<in> set ?tabs" by simp
  then have tabs_ne: "?tabs \<noteq> []"
    by (metis empty_iff empty_set)
  define c where "c = \<lparr>c_pinned = filter pinned ?tabs,
            c_grouped = map ?f ?groups,
            c_ungrouped =
              filter (\<lambda>t. t_id t \<notin> set (concat (map (map t_id) (map ?mem ?groups))))
                (filter (\<lambda>t. \<not> pinned t) ?tabs)\<rparr>"
  from ref_classifyTabs [of r ?tabs S w1] obtain w2 where
    cl: "classifyTabs ?H ?tabs S w1 = (Inr c, w2)" and hw2: "host w2 = ?b"
    unfolding c_def hw1 by blast
  from migrateWindow_phases [OF q tabs_ne, of c w2 T] cl
  have mw: "snd (migrateWindow ?H S T w) =
              migrateTabs ?H (map t_id (c_ungrouped c)) T
                (migrateTabGroups ?H (c_grouped c) T (migratePinnedTabs ?H (c_pinned c) T w2))"
    unfolding w1_def by auto
  have inj: "inj_on t_id (set (b_tabs ?b))"
    using W1 by (simp add: distinct_map)
  have K: "t_groupId t = g_id G" if "t \<in> set (b_tabs ?b)" "t_id t \<in> ?M" for t
  proof -
    from that(2) obtain t' where t': "t' \<in> set (b_tabs ?b)" "t_groupId t' = g_id G" "t_id t' = t_id t"
      by (auto simp add: members_def)
    with inj that(1) have "t' = t" by (simp add: inj_on_def)
    with t'(2) show ?thesis by simp
  qed
  have h0: "holds (g_id G) S (title G) (color G) (collapsed G) ?M (host w2)"
    using G GS mem by (auto simp add: holds_def hw2)
  have a: "t_id ` set (c_pinned c) \<inter> ?M = {}"
  proof -
    have False if "p \<in> set (c_pinned c)" "t_id p \<in> ?M" for p
    proof -
      from that(1) have p: "p \<in> set (b_tabs ?b)" "pinned p"
        by (simp_all add: c_def)
      from K [OF p(1) that(2)] mem p show False by blast
    qed
    then show ?thesis by blast
  qed
  have memG: "t_id ` set (?mem G) = ?M"
    using mem by (auto simp add: members_def)
  have other: "t_id ` set (?mem g) \<inter> ?M = {}" if "g_id g \<noteq> g_id G" for g
  proof -
    have False if t: "t \<in> set (?mem g)" "t_id t \<in> ?M" for t
    proof -
      from t(1) have "t \<in> set (b_tabs ?b)" "t_groupId t = g_id g" by simp_all
      with K [OF this(1) t(2)] \<open>g_id g \<noteq> g_id G\<close> show False by simp
    qed
    then show ?thesis by blast
  qed
  have dg: "distinct (map g_id ?groups)"
    using W2 by (rule distinct_map_filter)
  have "G \<in> set ?groups"
    using G GS by simp
  then obtain pre post where split: "?groups = pre @ G # post"
    by (meson split_list)
  have "g_id G \<notin> g_id ` (set pre \<union> set post)"
    using dg unfolding split by auto
  then have apart: "g_id g \<noteq> g_id G" if "g \<in> set pre \<union> set post" for g
    using that by (metis imageI)
  have cg: "c_grouped c = map ?f pre @ (G, ?mem G) # map ?f post"
    by (simp add: c_def split)
  have pre: "\<forall>gt \<in> set (map ?f pre). t_id ` set (snd gt) \<inter> ?M = {} \<and> g_id (fst gt) \<noteq> g_id G"
    using other apart by auto
  have post: "\<forall>gt \<in> set (map ?f post). t_id ` set (snd gt) \<inter> ?M = {}"
    using other apart by auto
  have u: "set (map t_id (c_ungrouped c)) \<inter> ?M = {}"
  proof -
    have "?M \<subseteq> set (concat (map (map t_id) (map ?mem ?groups)))"
      using memG \<open>G \<in> set ?groups\<close> by (force simp add: image_iff)
    then show ?thesis
      by (auto simp add: c_def)
  qed
  define w3 where "w3 = migratePinnedTabs ?H (c_pinned c) T w2"
  define w4 where "w4 = migrateTabGroups ?H (c_grouped c) T w3"
  have h3: "holds (g_id G) S (title G) (color G) (collapsed G) ?M (host w3)"
    unfolding w3_def by (rule migratePinnedTabs_frame [OF h0 ne k a])
  from groups_establish [OF h3 ne k memG ok pre post] obtain k' where
    k': "k' \<noteq> NO_GROUP" "holds k' T (title G) (color G) (collapsed G) ?M (host w4)"
    unfolding w4_def cg by blast
  from migrateTabs_frame [OF k'(2) ne k'(1) u]
  have "holds k' T (title G) (color G) (collapsed G) ?M
          (host (migrateTabs ?H (map t_id (c_ungrouped c)) T w4))" .
  then show ?thesis
    unfolding mw w4_def w3_def by blast
qed

section \<open>The registry of excluded windows is a set\<close>

text \<open>
  Claim C9. Two \<open>PWA_DETECTED\<close> notifications from tabs of the same window: the first
  adds the window identifier to the registry, the second leaves the whole state as the
  first left it. The listener returns nothing but the state. This holds for every window
  identifier and every prior registry.
\<close>

theorem markExcluded_idempotent:
  assumes "mtype m1 = ''PWA_DETECTED''" and "mtype m2 = ''PWA_DETECTED''"
    and "sender_tab s1 = Some t1" and "sender_tab s2 = Some t2"
    and "t_windowId t1 = t_windowId t2"
  shows "pwaWindowIds (onMessage m1 s1 w) = insert (t_windowId t1) (pwaWindowIds w)
       \<and> onMessage m2 s2 (onMessage m1 s1 w) = onMessage m1 s1 w"
  using assms by (simp add: onMessage_def)

theorem markExcluded_idempotent_witness:
  "mtype pwa_message = ''PWA_DETECTED''
   \<and> sender_tab pwa_sender = Some \<lparr>t_id = 41, t_windowId = 4, pinned = False, t_groupId = - 1\<rparr>
   \<and> pwaWindowIds (onMessage pwa_message pwa_sender (start demo)) = {4}
   \<and> onMessage pwa_message pwa_sender (onMessage pwa_message pwa_sender (start demo))
       = onMessage pwa_message pwa_sender (start demo)"
proof -
  have h1: "mtype pwa_message = ''PWA_DETECTED''"
    by (simp add: pwa_message_def)
  have h2: "sender_tab pwa_sender = Some \<lparr>t_id = 41, t_windowId = 4, pinned = False, t_groupId = - 1\<rparr>"
    by (simp add: pwa_sender_def)
  have h3: "t_windowId \<lparr>t_id = 41, t_windowId = 4, pinned = False, t_groupId = - 1\<rparr>
            = t_windowId \<lparr>t_id = 41, t_windowId = 4, pinned = False, t_groupId = - 1\<rparr>"
    by simp
  show ?thesis
    using h1 h2 markExcluded_idempotent [OF h1 h1 h2 h2 h3, of "start demo"]
    by (simp add: start_def)
qed

section \<open>Selection of the source windows\<close>

text \<open>
  Claim C3. When the browser answers both window requests, \<open>getSourceWindows\<close> asks for
  the target and for the windows of type \<open>normal\<close>, changes nothing, and returns exactly
  those normal-type windows whose identifier differs from the target's, whose incognito
  flag equals the target's and whose identifier is not in the registry. Hence every
  source window has the target's incognito flag, is not the target and is not excluded.
\<close>

theorem getSourceWindows_exact:
  assumes "windows_get H T (host w) = Inr tw"
    and "windows_getAll H [''normal''] (host w) = Inr normal"
  shows "\<exists>srcs w'. getSourceWindows H T w = (Inr srcs, w')
           \<and> runs H w [WindowsGet T, WindowsGetAll [''normal'']] w'
           \<and> set srcs = {x \<in> set normal. w_id x \<noteq> T \<and> incognito x = incognito tw
                                        \<and> w_id x \<notin> pwaWindowIds w}
           \<and> (\<forall>x \<in> set srcs. incognito x = incognito tw \<and> w_id x \<noteq> T \<and> w_id x \<notin> pwaWindowIds w)"
  using assms
  by (auto simp add: getSourceWindows_def chrome_windows_get_def chrome_windows_getAll_def runs_def)

theorem getSourceWindows_exact_witness:
  "windows_get (refHost accepting) 1 (host marked) = Inr (hd (b_windows demo))
   \<and> windows_getAll (refHost accepting) [''normal''] (host marked)
       = Inr (filter (\<lambda>x. w_type x = ''normal'') (b_windows demo))
   \<and> (\<exists>srcs w'. getSourceWindows (refHost accepting) 1 marked = (Inr srcs, w')
         \<and> runs (refHost accepting) marked [WindowsGet 1, WindowsGetAll [''normal'']] w'
         \<and> set srcs = {x \<in> set (filter (\<lambda>x. w_type x = ''normal'') (b_windows demo)).
                          w_id x \<noteq> 1 \<and> incognito x = incognito (hd (b_windows demo))
                          \<and> w_id x \<notin> pwaWindowIds marked}
         \<and> (\<forall>x \<in> set srcs. incognito x = incognito (hd (b_windows demo)) \<and> w_id x \<noteq> 1
                               \<and> w_id x \<notin> pwaWindowIds marked))
   \<and> map w_id (projr (fst (getSourceWindows (refHost accepting) 1 marked))) = [2, 6]"
proof -
  have h1: "windows_get (refHost accepting) 1 (host marked) = Inr (hd (b_windows demo))"
    by (simp add: refHost_def ref_windows_get_def marked_def onMessage_def pwa_message_def
        pwa_sender_def start_def demo_def)
  have h2: "windows_getAll (refHost accepting) [''normal''] (host marked)
              = Inr (filter (\<lambda>x. w_type x = ''normal'') (b_windows demo))"
    by (simp add: refHost_def ref_windows_getAll_def marked_def onMessage_def pwa_message_def
        pwa_sender_def start_def)
  have h3: "map w_id (projr (fst (getSourceWindows (refHost accepting) 1 marked))) = [2, 6]"
    by (simp add: getSourceWindows_def chrome_windows_get_def chrome_windows_getAll_def
        refHost_def ref_windows_get_def ref_windows_getAll_def marked_def onMessage_def
        pwa_message_def pwa_sender_def start_def demo_def)
  show ?thesis
    using h1 h2 h3 getSourceWindows_exact [OF h1 h2] by simp
qed

section \<open>A window without tabs\<close>

text \<open>
  Claim C8. When the tab query of the source window answers the empty list,
  \<open>migrateWindow\<close> returns normally after that single query: no mutating request is
  issued, and the browser state and the console are as before.
\<close>

theorem migrateWindow_empty:
  assumes "tabs_query H S None (host w) = Inr []"
  shows "\<exists>w'. migrateWindow H S T w = (Inr (), w')
           \<and> runs H w [TabsQuery S None] w'
           \<and> host w' = host w \<and> console w' = console w
           \<and> filter mutating (calls w') = filter mutating (calls w)"
  using assms by (simp add: migrateWindow_def chrome_tabs_query_def runs_def)

theorem migrateWindow_empty_witness:
  "tabs_query (refHost rejecting) 6 None (host (start demo)) = Inr []
   \<and> (\<exists>w'. migrateWindow (refHost rejecting) 6 1 (start demo) = (Inr (), w')
         \<and> runs (refHost rejecting) (start demo) [TabsQuery 6 None] w'
         \<and> host w' = host (start demo) \<and> console w' = console (start demo)
         \<and> filter mutating (calls w') = filter mutating (calls (start demo)))"
proof -
  have h: "tabs_query (refHost rejecting) 6 None (host (start demo)) = Inr []"
    by (simp add: refHost_def ref_tabs_query_def start_def demo_def)
  show ?thesis
    using h migrateWindow_empty [OF h] by simp
qed

section \<open>Phase A: pinned tabs\<close>

text \<open>
  Claim C4. For any browser, \<open>migratePinnedTabs\<close> issues, for each tab of its list in
  order, a move of that tab to index 0 of the target window; when that move resolves, one
  update setting \<open>pinned\<close>, whose outcome (either way) is followed by the next tab; when
  the move is rejected, nothing more for that tab. These are all its requests, their
  logged outcomes are the browser's answers, and the browser state is changed by them only.
\<close>

theorem migratePinnedTabs_requests:
  "\<exists>answers. length answers = length tabs \<and>
     runs H w (concat (map2 (pinned_requests T) tabs answers)) (migratePinnedTabs H tabs T w)"
  by (rule migratePinnedTabs_runs)

theorem migratePinnedTabs_requests_witness:
  "(\<exists>answers. length answers = length (filter pinned (b_tabs demo)) \<and>
     runs (refHost accepting) (start demo)
       (concat (map2 (pinned_requests 1) (filter pinned (b_tabs demo)) answers))
       (migratePinnedTabs (refHost accepting) (filter pinned (b_tabs demo)) 1 (start demo)))
   \<and> calls (migratePinnedTabs (refHost accepting) (filter pinned (b_tabs demo)) 1 (start demo))
       = [TabsMove (One 21) 1 0 True, TabsUpdate 21 True True,
          TabsMove (One 22) 1 0 True, TabsUpdate 22 True True]
   \<and> calls (migratePinnedTabs (refHost rejecting) (filter pinned (b_tabs demo)) 1 (start demo))
       = [TabsMove (One 21) 1 0 False, TabsMove (One 22) 1 0 False]"
proof -
  have c1: "calls (migratePinnedTabs (refHost accepting) (filter pinned (b_tabs demo)) 1 (start demo))
       = [TabsMove (One 21) 1 0 True, TabsUpdate 21 True True,
          TabsMove (One 22) 1 0 True, TabsUpdate 22 True True]"
    by code_simp
  have c2: "calls (migratePinnedTabs (refHost rejecting) (filter pinned (b_tabs demo)) 1 (start demo))
       = [TabsMove (One 21) 1 0 False, TabsMove (One 22) 1 0 False]"
    by code_simp
  show ?thesis
    using c1 c2
      migratePinnedTabs_requests [of "filter pinned (b_tabs demo)" "refHost accepting" "start demo" 1]
    by simp
qed

section \<open>Phase B: tab groups\<close>

text \<open>
  Claim C5. For any browser, \<open>migrateTabGroups\<close> issues, for each group with at least
  one member tab in order, first a move of the whole group to the end of the target
  window; only when that is rejected, a batch move of the member tabs to the end; only
  when that resolves, the creation of a group from them; and only when that resolves, an
  update with the original title, color and collapsed flag. Whatever the outcome, the
  next group follows. A group without member tabs causes no request.
\<close>

theorem migrateTabGroups_requests:
  "\<exists>answers. length answers = length grouped \<and>
     runs H w (concat (map2 (group_requests T) grouped answers)) (migrateTabGroups H grouped T w)"
  by (rule migrateTabGroups_runs)

theorem migrateTabGroups_requests_witness:
  "(\<exists>answers. length answers = length [(hd (b_groups demo), [b_tabs demo ! 3])] \<and>
     runs (refHost rejecting_group_moves) (start demo)
       (concat (map2 (group_requests 1) [(hd (b_groups demo), [b_tabs demo ! 3])] answers))
       (migrateTabGroups (refHost rejecting_group_moves) [(hd (b_groups demo), [b_tabs demo ! 3])] 1
          (start demo)))
   \<and> calls (migrateTabGroups (refHost rejecting_group_moves)
               [(hd (b_groups demo), [b_tabs demo ! 3])] 1 (start demo))
       = [TabGroupsMove 7 1 (- 1) False, TabsMove (Many [23]) 1 (- 1) True,
          TabsGroup [23] 1 (Some 1), TabGroupsUpdate 1 ''Work'' ''blue'' False True]
   \<and> calls (migrateTabGroups (refHost accepting)
               [(hd (b_groups demo), [b_tabs demo ! 3])] 1 (start demo))
       = [TabGroupsMove 7 1 (- 1) True]
   \<and> calls (migrateTabGroups (refHost rejecting)
               [(hd (b_groups demo), [b_tabs demo ! 3])] 1 (start demo))
       = [TabGroupsMove 7 1 (- 1) False, TabsMove (Many [23]) 1 (- 1) False]"
proof -
  have c1: "calls (migrateTabGroups (refHost rejecting_group_moves)
               [(hd (b_groups demo), [b_tabs demo ! 3])] 1 (start demo))
       = [TabGroupsMove 7 1 (- 1) False, TabsMove (Many [23]) 1 (- 1) True,
          TabsGroup [23] 1 (Some 1), TabGroupsUpdate 1 ''Work'' ''blue'' False True]"
    by code_simp
  have c2: "calls (migrateTabGroups (refHost accepting)
               [(hd (b_groups demo), [b_tabs demo ! 3])] 1 (start demo))
       = [TabGroupsMove 7 1 (- 1) True]"
    by code_simp
  have c3: "calls (migrateTabGroups (refHost rejecting)
               [(hd (b_groups demo), [b_tabs demo ! 3])] 1 (start demo))
       = [TabGroupsMove 7 1 (- 1) False, TabsMove (Many [23]) 1 (- 1) False]"
    by code_simp
  show ?thesis
    using c1 c2 c3
      migrateTabGroups_requests [of "[(hd (b_groups demo), [b_tabs demo ! 3])]"
        "refHost rejecting_group_moves" "start demo" 1]
    by simp
qed

section \<open>Phase C: ungrouped tabs\<close>

text \<open>
  Claim C6. For any browser, \<open>migrateTabs\<close> issues nothing for the empty list;
  otherwise one batch move of all identifiers to the end of the target window, followed,
  exactly when the batch move is rejected, by one move to the end for each identifier in
  order.
\<close>

theorem migrateTabs_requests:
  "\<exists>answer. (case answer of None \<Rightarrow> True | Some singles \<Rightarrow> length singles = length tabIds) \<and>
     runs H w (ungrouped_requests T tabIds answer) (migrateTabs H tabIds T w)"
proof -
  from migrateTabs_runs [of tabIds H w T] obtain answer where
    a: "\<forall>oks. answer = Some oks \<longrightarrow> length oks = length tabIds"
    "runs H w (ungrouped_requests T tabIds answer) (migrateTabs H tabIds T w)"
    by blast
  from a(1) have "case answer of None \<Rightarrow> True | Some singles \<Rightarrow> length singles = length tabIds"
    by (cases answer) simp_all
  with a(2) show ?thesis by blast
qed


theorem migrateTabs_requests_witness:
  "(\<exists>answer. (case answer of None \<Rightarrow> True | Some singles \<Rightarrow> length singles = length [24, 10 :: int]) \<and>
     runs (refHost rejecting) (start demo) (ungrouped_requests 1 [24, 10] answer)
       (migrateTabs (refHost rejecting) [24, 10] 1 (start demo)))
   \<and> calls (migrateTabs (refHost rejecting) [24, 10] 1 (start demo))
       = [TabsMove (Many [24, 10]) 1 (- 1) False,
          TabsMove (One 24) 1 (- 1) False, TabsMove (One 10) 1 (- 1) False]
   \<and> calls (migrateTabs (refHost accepting) [24, 10] 1 (start demo))
       = [TabsMove (Many [24, 10]) 1 (- 1) True]
   \<and> calls (migrateTabs (refHost accepting) [] 1 (start demo)) = []"
proof -
  have c1: "calls (migrateTabs (refHost rejecting) [24, 10] 1 (start demo))
       = [TabsMove (Many [24, 10]) 1 (- 1) False,
          TabsMove (One 24) 1 (- 1) False, TabsMove (One 10) 1 (- 1) False]"
    by code_simp
  have c2: "calls (migrateTabs (refHost accepting) [24, 10] 1 (start demo))
       = [TabsMove (Many [24, 10]) 1 (- 1) True]"
    by code_simp
  have c3: "calls (migrateTabs (refHost accepting) [] 1 (start demo)) = []"
    by code_simp
  show ?thesis
    using c1 c2 c3 migrateTabs_requests [of "[24, 10]" "refHost rejecting" "start demo" 1]
    by simp
qed

section \<open>The classification as a partition\<close>




section \<open>The order of windows and phases\<close>

text \<open>
  Claim C7. After the source windows are resolved, the history of a merge is the
  concatenation, in the order of the source windows, of one history per window up to the
  first window whose query is rejected: the requests of a window all come before those of
  the next one. The history of each window is the one that the browser's answers to the
  queries of that window determine, in the state in which the merge reaches the window:
  for a window that has tabs and whose queries resolve, it is the queries, followed by
  the requests of phase A for each pinned tab of the window, followed by those of phase B
  for each of its groups, followed by those of phase C for its ungrouped tabs. A merge
  that left out a phase of such a window, or ran the phases in another order, would have
  another history. The same holds of the migration of a single window, from any state.
\<close>

theorem executeMerge_sequential:
  assumes "getSourceWindows H T w = (Inr srcs, w0)"
  shows "(\<exists>answers. covers (length srcs) answers \<and> list_all complete answers
            \<and> merge_observed H T (map w_id srcs) (host w0) answers
            \<and> runs H w0 (concat (map2 (window_requests T) (map w_id srcs) answers))
                 (executeMerge H T w))
       \<and> (\<forall>S u tabs c u'.
             tabs_query H S None (host u) = Inr tabs \<and> tabs \<noteq> []
             \<and> classifyTabs H tabs S (snd (chrome_tabs_query H S None u)) = (Inr c, u')
             \<longrightarrow> (\<exists>a b d. complete (Migrated c a b d)
                    \<and> runs H u (window_requests T S (Migrated c a b d))
                         (snd (migrateWindow H S T u))))"
proof
  from executeMerge_after_sources [OF assms] obtain c where
    e: "executeMerge H T w = (snd (migrateEach H srcs T w0))\<lparr>console := c\<rparr>" ..
  from migrateEach_observed [of srcs H T w0] obtain answers where
    a: "covers (length srcs) answers" "list_all complete answers"
    "merge_observed H T (map w_id srcs) (host w0) answers"
    "runs H w0 (concat (map2 (window_requests T) (map w_id srcs) answers))
           (snd (migrateEach H srcs T w0))"
    by blast
  from runs_console [OF a(4), of c] e
  have "runs H w0 (concat (map2 (window_requests T) (map w_id srcs) answers)) (executeMerge H T w)"
    by simp
  with a(1,2,3)
  show "\<exists>answers. covers (length srcs) answers \<and> list_all complete answers
            \<and> merge_observed H T (map w_id srcs) (host w0) answers
            \<and> runs H w0 (concat (map2 (window_requests T) (map w_id srcs) answers))
                 (executeMerge H T w)"
    by blast
next
  show "\<forall>S u tabs c u'.
             tabs_query H S None (host u) = Inr tabs \<and> tabs \<noteq> []
             \<and> classifyTabs H tabs S (snd (chrome_tabs_query H S None u)) = (Inr c, u')
             \<longrightarrow> (\<exists>a b d. complete (Migrated c a b d)
                    \<and> runs H u (window_requests T S (Migrated c a b d))
                         (snd (migrateWindow H S T u)))"
    using migrateWindow_phases by blast
qed


theorem executeMerge_sequential_witness:
  "getSourceWindows (refHost accepting) 1 marked
     = (Inr [b_windows demo ! 1, b_windows demo ! 5],
        marked\<lparr>calls := [WindowsGet 1, WindowsGetAll [''normal'']]\<rparr>)
   \<and> (\<exists>answers. covers (length [b_windows demo ! 1, b_windows demo ! 5]) answers
          \<and> list_all complete answers
          \<and> merge_observed (refHost accepting) 1 (map w_id [b_windows demo ! 1, b_windows demo ! 5])
               (host (marked\<lparr>calls := [WindowsGet 1, WindowsGetAll [''normal'']]\<rparr>)) answers
          \<and> runs (refHost accepting) (marked\<lparr>calls := [WindowsGet 1, WindowsGetAll [''normal'']]\<rparr>)
               (concat (map2 (window_requests 1)
                  (map w_id [b_windows demo ! 1, b_windows demo ! 5]) answers))
               (executeMerge (refHost accepting) 1 marked))
   \<and> merge_observed (refHost accepting) 1 [2, 6] (host marked)
        [Migrated demo_classified [(True, True), (True, True)] [GroupMoved] None, NoTabs]
   \<and> \<not> merge_observed (refHost accepting) 1 [2, 6] (host marked) [NoTabs, NoTabs]
   \<and> calls (executeMerge (refHost accepting) 1 marked)
       = [WindowsGet 1, WindowsGetAll [''normal''],
          TabsQuery 2 None, TabGroupsQuery 2, TabsQuery 2 (Some 7),
          TabsMove (One 21) 1 0 True, TabsUpdate 21 True True,
          TabsMove (One 22) 1 0 True, TabsUpdate 22 True True,
          TabGroupsMove 7 1 (- 1) True,
          TabsMove (Many [24]) 1 (- 1) True,
          TabsQuery 6 None]
   \<and> tabs_query (refHost accepting) 2 None (host marked) = Inr (strip 2 demo)
   \<and> strip 2 demo \<noteq> []
   \<and> classifyTabs (refHost accepting) (strip 2 demo) 2
        (snd (chrome_tabs_query (refHost accepting) 2 None marked))
       = (Inr demo_classified,
          marked\<lparr>calls := [TabsQuery 2 None, TabGroupsQuery 2, TabsQuery 2 (Some 7)]\<rparr>)
   \<and> (\<exists>a b d. complete (Migrated demo_classified a b d)
          \<and> runs (refHost accepting) marked (window_requests 1 2 (Migrated demo_classified a b d))
               (snd (migrateWindow (refHost accepting) 2 1 marked)))
   \<and> calls (snd (migrateWindow (refHost accepting) 2 1 marked))
       = [TabsQuery 2 None, TabGroupsQuery 2, TabsQuery 2 (Some 7),
          TabsMove (One 21) 1 0 True, TabsUpdate 21 True True,
          TabsMove (One 22) 1 0 True, TabsUpdate 22 True True,
          TabGroupsMove 7 1 (- 1) True,
          TabsMove (Many [24]) 1 (- 1) True]"
proof -
  define w0 where "w0 = marked\<lparr>calls := [WindowsGet 1, WindowsGetAll [''normal'']]\<rparr>"
  define w2 where "w2 = w0\<lparr>calls := [WindowsGet 1, WindowsGetAll [''normal''],
                             TabsQuery 2 None, TabGroupsQuery 2, TabsQuery 2 (Some 7)]\<rparr>"
  define w5 where "w5 = migrateTabs (refHost accepting) (map t_id (c_ungrouped demo_classified)) 1
             (migrateTabGroups (refHost accepting) (c_grouped demo_classified) 1
               (migratePinnedTabs (refHost accepting) (c_pinned demo_classified) 1 w2))"
  have h: "getSourceWindows (refHost accepting) 1 marked
     = (Inr [b_windows demo ! 1, b_windows demo ! 5],
        marked\<lparr>calls := [WindowsGet 1, WindowsGetAll [''normal'']]\<rparr>)"
    by code_simp
  have q: "tabs_query (refHost accepting) 2 None (host marked) = Inr (strip 2 demo)"
    by code_simp
  have ne: "strip 2 demo \<noteq> []"
    by code_simp
  have cl: "classifyTabs (refHost accepting) (strip 2 demo) 2
        (snd (chrome_tabs_query (refHost accepting) 2 None marked))
       = (Inr demo_classified,
          marked\<lparr>calls := [TabsQuery 2 None, TabGroupsQuery 2, TabsQuery 2 (Some 7)]\<rparr>)"
    by code_simp
  have c: "calls (migrateTabs (refHost accepting) (map t_id (c_ungrouped demo_classified)) 1
             (migrateTabGroups (refHost accepting) (c_grouped demo_classified) 1
               (migratePinnedTabs (refHost accepting) (c_pinned demo_classified) 1
                 (marked\<lparr>calls := [TabsQuery 2 None, TabGroupsQuery 2, TabsQuery 2 (Some 7)]\<rparr>))))
       = [TabsQuery 2 None, TabGroupsQuery 2, TabsQuery 2 (Some 7),
          TabsMove (One 21) 1 0 True, TabsUpdate 21 True True,
          TabsMove (One 22) 1 0 True, TabsUpdate 22 True True,
          TabGroupsMove 7 1 (- 1) True,
          TabsMove (Many [24]) 1 (- 1) True]"
    by code_simp
  from migrateWindow_phases [OF q ne cl, of 1] c
  have c': "calls (snd (migrateWindow (refHost accepting) 2 1 marked))
       = [TabsQuery 2 None, TabGroupsQuery 2, TabsQuery 2 (Some 7),
          TabsMove (One 21) 1 0 True, TabsUpdate 21 True True,
          TabsMove (One 22) 1 0 True, TabsUpdate 22 True True,
          TabGroupsMove 7 1 (- 1) True,
          TabsMove (Many [24]) 1 (- 1) True]"
    by auto
  have q0: "tabs_query (refHost accepting) 2 None (host w0) = Inr (strip 2 demo)"
    unfolding w0_def by code_simp
  have cl0: "classifyTabs (refHost accepting) (strip 2 demo) 2
        (snd (chrome_tabs_query (refHost accepting) 2 None w0)) = (Inr demo_classified, w2)"
    unfolding w0_def w2_def by code_simp
  from migrateWindow_phases [OF q0 ne cl0, of 1]
  have m2: "migrateWindow (refHost accepting) 2 1 w0 = (Inr (), w5)"
    unfolding w5_def by blast
  have q6: "tabs_query (refHost accepting) 6 None (host w5) = Inr []"
    unfolding w5_def w2_def w0_def by code_simp
  have m6: "migrateWindow (refHost accepting) 6 1 w5
              = (Inr (), w5\<lparr>calls := calls w5 @ [TabsQuery 6 None]\<rparr>)"
    using q6 by (simp add: migrateWindow_def chrome_tabs_query_def)
  have ids: "w_id (b_windows demo ! 1) = 2" "w_id (b_windows demo ! 5) = 6"
    by code_simp+
  have me: "migrateEach (refHost accepting) [b_windows demo ! 1, b_windows demo ! 5] 1 w0
              = (Inr (), w5\<lparr>calls := calls w5 @ [TabsQuery 6 None]\<rparr>)"
    using m2 m6 ids by simp
  have c5: "calls w5 = [WindowsGet 1, WindowsGetAll [''normal''],
          TabsQuery 2 None, TabGroupsQuery 2, TabsQuery 2 (Some 7),
          TabsMove (One 21) 1 0 True, TabsUpdate 21 True True,
          TabsMove (One 22) 1 0 True, TabsUpdate 22 True True,
          TabGroupsMove 7 1 (- 1) True,
          TabsMove (Many [24]) 1 (- 1) True]"
    unfolding w5_def w2_def w0_def by code_simp
  from executeMerge_after_sources [OF h [folded w0_def]] obtain co where
    "executeMerge (refHost accepting) 1 marked
       = (snd (migrateEach (refHost accepting) [b_windows demo ! 1, b_windows demo ! 5] 1 w0))
           \<lparr>console := co\<rparr>" ..
  with me c5
  have ce: "calls (executeMerge (refHost accepting) 1 marked)
       = [WindowsGet 1, WindowsGetAll [''normal''],
          TabsQuery 2 None, TabGroupsQuery 2, TabsQuery 2 (Some 7),
          TabsMove (One 21) 1 0 True, TabsUpdate 21 True True,
          TabsMove (One 22) 1 0 True, TabsUpdate 22 True True,
          TabGroupsMove 7 1 (- 1) True,
          TabsMove (Many [24]) 1 (- 1) True,
          TabsQuery 6 None]"
    by simp
  have ob: "merge_observed (refHost accepting) 1 [2, 6] (host marked)
        [Migrated demo_classified [(True, True), (True, True)] [GroupMoved] None, NoTabs]"
    by code_simp
  have nob: "\<not> merge_observed (refHost accepting) 1 [2, 6] (host marked) [NoTabs, NoTabs]"
    by code_simp
  from executeMerge_sequential [OF h]
  have 1: "\<exists>answers. covers (length [b_windows demo ! 1, b_windows demo ! 5]) answers
          \<and> list_all complete answers
          \<and> merge_observed (refHost accepting) 1 (map w_id [b_windows demo ! 1, b_windows demo ! 5])
               (host (marked\<lparr>calls := [WindowsGet 1, WindowsGetAll [''normal'']]\<rparr>)) answers
          \<and> runs (refHost accepting) (marked\<lparr>calls := [WindowsGet 1, WindowsGetAll [''normal'']]\<rparr>)
               (concat (map2 (window_requests 1)
                  (map w_id [b_windows demo ! 1, b_windows demo ! 5]) answers))
               (executeMerge (refHost accepting) 1 marked)"
    by (rule conjunct1)
  have 2: "\<exists>a b d. complete (Migrated demo_classified a b d)
                    \<and> runs (refHost accepting) marked (window_requests 1 2 (Migrated demo_classified a b d))
                         (snd (migrateWindow (refHost accepting) 2 1 marked))"
    by (rule executeMerge_sequential [OF h, THEN conjunct2, rule_format,
          OF conjI [OF q conjI [OF ne cl]]])
  from h 1 ob nob ce q ne cl 2 c' show ?thesis
    by (intro conjI)
qed

section \<open>The order of migrated pinned tabs\<close>

text \<open>
  Claim C10, on the reference browser. Let the tabs of the browser have distinct
  identifiers, let the pinned tabs handed to phase A be distinct tabs of the browser, and
  let the browser accept the move of each of them to index 0 of the target window. Then
  after \<open>migratePinnedTabs\<close> the strip of the target window starts with these tabs in
  the reverse of the order of the list, followed by the tabs it held before: each tab is
  put in front of those migrated before it. Whether the pin updates resolve does not
  matter.
\<close>

theorem pinned_tabs_end_up_reversed:
  assumes "distinct (map t_id (b_tabs (host w)))"
    and "distinct (map t_id tabs)"
    and "t_id ` set tabs \<subseteq> t_id ` set (b_tabs (host w))"
    and "\<forall>b. \<forall>t \<in> set tabs. \<not> rejects b (ReqMoveTabs (One (t_id t)) T 0)"
  shows "map t_id (strip T (host (migratePinnedTabs (refHost rejects) tabs T w)))
           = rev (map t_id tabs) @ filter (\<lambda>i. i \<notin> t_id ` set tabs) (map t_id (strip T (host w)))"
  using assms
proof (induction tabs arbitrary: w)
  case Nil
  then show ?case by simp
next
  case (Cons t tabs)
  let ?H = "refHost rejects"
  let ?i = "t_id t"
  define w1 where "w1 = snd (safeMove ?H ?i T TAB_POSITION_START w)"
  define w2 where "w2 = snd (chrome_tabs_update ?H ?i True w1)"
  have acc: "\<not> rejects (host w) (ReqMoveTabs (One ?i) T 0)"
    using Cons.prems(4) by simp
  have h1: "host w1 = snd (ref_tabs_move rejects (One ?i) T 0 (host w))"
    by (simp add: w1_def safeMove_host TAB_POSITION_START_def)
  have h2: "host w2 = snd (ref_tabs_update rejects ?i True (host w1))"
    by (simp add: w2_def chrome_tabs_update_host)
  have ok: "fst (safeMove ?H ?i T TAB_POSITION_START w)"
    using ref_tabs_move_accepted [of rejects "host w" "One ?i" T 0, OF acc]
    by (simp add: safeMove_ok TAB_POSITION_START_def)
  have step: "migratePinnedTabs ?H (t # tabs) T w = migratePinnedTabs ?H tabs T w2"
    using ok by (cases "safeMove ?H ?i T TAB_POSITION_START w") (simp add: w1_def w2_def)
  have ids: "mset (map t_id (b_tabs (host w2))) = mset (map t_id (b_tabs (host w)))"
    unfolding h2 h1 by (simp only: ref_tabs_update_ids ref_tabs_move_ids)
  have d2: "distinct (map t_id (b_tabs (host w2)))"
    using mset_eq_imp_distinct_iff [OF ids] Cons.prems(1) by blast
  have ex2: "t_id ` set tabs \<subseteq> t_id ` set (b_tabs (host w2))"
  proof -
    have "set (map t_id (b_tabs (host w2))) = set (map t_id (b_tabs (host w)))"
      using ids by (rule mset_eq_setD)
    with Cons.prems(3) show ?thesis by auto
  qed
  have front: "map t_id (strip T (host w2)) = ?i # filter (\<lambda>j. j \<noteq> ?i) (map t_id (strip T (host w)))"
    unfolding h2 h1 ref_update_strip
    using Cons.prems(1,3) by (intro ref_move_front [of rejects "host w" ?i T, OF acc]) auto
  have IH: "map t_id (strip T (host (migratePinnedTabs ?H tabs T w2)))
           = rev (map t_id tabs) @ filter (\<lambda>i. i \<notin> t_id ` set tabs) (map t_id (strip T (host w2)))"
    using Cons.prems(2,4) by (intro Cons.IH [OF d2 _ ex2]) auto
  have "?i \<notin> t_id ` set tabs"
    using Cons.prems(2) by auto
  then have "filter (\<lambda>i. i \<notin> t_id ` set tabs) (map t_id (strip T (host w2)))
           = ?i # filter (\<lambda>i. i \<notin> t_id ` set (t # tabs)) (map t_id (strip T (host w)))"
    unfolding front by (auto intro: filter_cong)
  with IH step show ?case by simp
qed

theorem pinned_tabs_end_up_reversed_witness:
  "map t_id (c_pinned demo_classified) = [21, 22]
   \<and> map t_id (strip 1 (host (start demo))) = [10]
   \<and> map t_id (strip 1 (host (migratePinnedTabs (refHost accepting) (c_pinned demo_classified) 1
                                 (start demo))))
       = [22, 21, 10]"
proof -
  have h1: "distinct (map t_id (b_tabs (host (start demo))))"
    by code_simp
  have h2: "distinct (map t_id (c_pinned demo_classified))"
    by code_simp
  have h3: "t_id ` set (c_pinned demo_classified) \<subseteq> t_id ` set (b_tabs (host (start demo)))"
    by code_simp
  have h4: "\<forall>b. \<forall>t \<in> set (c_pinned demo_classified).
              \<not> accepting b (ReqMoveTabs (One (t_id t)) 1 0)"
    by (simp add: accepting_def)
  have e1: "map t_id (c_pinned demo_classified) = [21, 22]"
    by code_simp
  have e2: "map t_id (strip 1 (host (start demo))) = [10]"
    by code_simp
  have e3: "rev (map t_id (c_pinned demo_classified))
              @ filter (\<lambda>i. i \<notin> t_id ` set (c_pinned demo_classified))
                  (map t_id (strip 1 (host (start demo))))
            = [22, 21, 10]"
    by code_simp
  show ?thesis
    using e1 e2 e3 pinned_tabs_end_up_reversed [OF h1 h2 h3 h4] by simp
qed

section \<open>A migrated group keeps its members and its look\<close>

text \<open>
  Claim C2, as the code has it, on the reference browser. Let the tabs and the groups of
  the browser have distinct identifiers, and let \<open>G\<close> be a group of the source window
  with at least one member tab, its members being unpinned tabs of that window. Let the
  browser accept the move of the group or, for the fallback, the batch move of its
  members, the creation of a group from them and the update with the title, color and
  collapsed flag of \<open>G\<close>. Then after the migration of the window exactly one group of
  the target window has exactly the members of \<open>G\<close>; it has the title, the color and the
  collapsed flag of \<open>G\<close>, and its member tabs are in the target window. Which of the two
  paths was taken does not matter, nor does the outcome of the requests for other tabs and
  groups.
\<close>

theorem migrated_group_preserved:
  fixes G :: tabGroup
  assumes "distinct (map t_id (b_tabs (host w)))"
    and "distinct (map g_id (b_groups (host w)))"
    and "G \<in> set (b_groups (host w))" and "g_windowId G = S" and "g_id G \<noteq> NO_GROUP"
    and "\<forall>t \<in> set (b_tabs (host w)). t_groupId t = g_id G \<longrightarrow> t_windowId t = S \<and> \<not> pinned t"
    and "members (g_id G) (host w) \<noteq> {}"
    and "(\<forall>b. \<not> rejects b (ReqMoveGroup (g_id G) T (- 1)))
           \<or> (\<forall>b. \<not> rejects b (ReqMoveTabs
                         (Many (map t_id (filter (\<lambda>t. t_windowId t = S \<and> t_groupId t = g_id G)
                                           (b_tabs (host w))))) T (- 1))
                  \<and> \<not> rejects b (ReqGroupTabs
                         (map t_id (filter (\<lambda>t. t_windowId t = S \<and> t_groupId t = g_id G)
                                     (b_tabs (host w)))) T)
                  \<and> (\<forall>n. \<not> rejects b (ReqUpdateGroup n (title G) (color G) (collapsed G))))"
  shows "\<exists>g'. {g \<in> set (b_groups (host (snd (migrateWindow (refHost rejects) S T w)))).
                 g_windowId g = T
                 \<and> members (g_id g) (host (snd (migrateWindow (refHost rejects) S T w)))
                     = members (g_id G) (host w)} = {g'}
              \<and> title g' = title G \<and> color g' = color G \<and> collapsed g' = collapsed G
              \<and> (\<forall>t \<in> set (b_tabs (host (snd (migrateWindow (refHost rejects) S T w)))).
                    t_groupId t = g_id g' \<longrightarrow> t_windowId t = T)"
proof -
  let ?w' = "snd (migrateWindow (refHost rejects) S T w)"
  from migrateWindow_group [OF assms] obtain k' where
    h: "holds k' T (title G) (color G) (collapsed G) (members (g_id G) (host w)) (host ?w')"
    by blast
  from migrateWindow_runs [of "refHost rejects" w T S] obtain a where
    r: "runs (refHost rejects) w (window_requests T S a) ?w'"
    by blast
  have "mset (map t_id (b_tabs (host ?w'))) = mset (map t_id (b_tabs (host w)))"
    by (rule runs_ids [OF r])
  from mset_eq_imp_distinct_iff [OF this] assms(1)
  have W1: "distinct (map t_id (b_tabs (host ?w')))"
    by blast
  have W2: "distinct (map g_id (b_groups (host ?w')))"
    by (rule runs_groups_distinct [OF r assms(2)])
  from unique_group [OF h assms(7) W1 W2] show ?thesis .
qed

theorem migrated_group_preserved_witness:
  "members (g_id (hd (b_groups demo))) (host (start demo)) = {23}
   \<and> (\<exists>g'. {g \<in> set (b_groups (host (snd (migrateWindow (refHost rejecting_group_moves) 2 1 (start demo))))).
               g_windowId g = 1
               \<and> members (g_id g) (host (snd (migrateWindow (refHost rejecting_group_moves) 2 1 (start demo))))
                   = members (g_id (hd (b_groups demo))) (host (start demo))} = {g'}
            \<and> title g' = title (hd (b_groups demo)) \<and> color g' = color (hd (b_groups demo))
            \<and> collapsed g' = collapsed (hd (b_groups demo))
            \<and> (\<forall>t \<in> set (b_tabs (host (snd (migrateWindow (refHost rejecting_group_moves) 2 1 (start demo))))).
                  t_groupId t = g_id g' \<longrightarrow> t_windowId t = 1))
   \<and> b_groups (host (snd (migrateWindow (refHost rejecting_group_moves) 2 1 (start demo))))
       = [\<lparr>g_id = 1, g_windowId = 1, title = ''Work'', color = ''blue'', collapsed = False\<rparr>]
   \<and> members 1 (host (snd (migrateWindow (refHost rejecting_group_moves) 2 1 (start demo)))) = {23}"
proof -
  let ?G = "hd (b_groups demo)"
  have h1: "distinct (map t_id (b_tabs (host (start demo))))"
    by code_simp
  have h2: "distinct (map g_id (b_groups (host (start demo))))"
    by code_simp
  have h3: "?G \<in> set (b_groups (host (start demo)))"
    by code_simp
  have h4: "g_windowId ?G = 2"
    by code_simp
  have h5: "g_id ?G \<noteq> NO_GROUP"
    by code_simp
  have h6: "\<forall>t \<in> set (b_tabs (host (start demo))).
              t_groupId t = g_id ?G \<longrightarrow> t_windowId t = 2 \<and> \<not> pinned t"
    by code_simp
  have m: "members (g_id ?G) (host (start demo)) = {23}"
    by code_simp
  then have h7: "members (g_id ?G) (host (start demo)) \<noteq> {}"
    by simp
  have h8: "(\<forall>b. \<not> rejecting_group_moves b (ReqMoveGroup (g_id ?G) 1 (- 1)))
           \<or> (\<forall>b. \<not> rejecting_group_moves b (ReqMoveTabs
                         (Many (map t_id (filter (\<lambda>t. t_windowId t = 2 \<and> t_groupId t = g_id ?G)
                                           (b_tabs (host (start demo)))))) 1 (- 1))
                  \<and> \<not> rejecting_group_moves b (ReqGroupTabs
                         (map t_id (filter (\<lambda>t. t_windowId t = 2 \<and> t_groupId t = g_id ?G)
                                     (b_tabs (host (start demo))))) 1)
                  \<and> (\<forall>n. \<not> rejecting_group_moves b
                             (ReqUpdateGroup n (title ?G) (color ?G) (collapsed ?G))))"
    by (simp add: rejecting_group_moves_def)
  have q: "tabs_query (refHost rejecting_group_moves) 2 None (host (start demo)) = Inr (strip 2 demo)"
    by code_simp
  have ne: "strip 2 demo \<noteq> []"
    by code_simp
  have cl: "classifyTabs (refHost rejecting_group_moves) (strip 2 demo) 2
        (snd (chrome_tabs_query (refHost rejecting_group_moves) 2 None (start demo)))
       = (Inr demo_classified,
          (start demo)\<lparr>calls := [TabsQuery 2 None, TabGroupsQuery 2, TabsQuery 2 (Some 7)]\<rparr>)"
    by code_simp
  from migrateWindow_phases [OF q ne cl, of 1]
  have mw: "snd (migrateWindow (refHost rejecting_group_moves) 2 1 (start demo)) =
     migrateTabs (refHost rejecting_group_moves) (map t_id (c_ungrouped demo_classified)) 1
       (migrateTabGroups (refHost rejecting_group_moves) (c_grouped demo_classified) 1
         (migratePinnedTabs (refHost rejecting_group_moves) (c_pinned demo_classified) 1
           ((start demo)\<lparr>calls := [TabsQuery 2 None, TabGroupsQuery 2, TabsQuery 2 (Some 7)]\<rparr>)))"
    by auto
  have g: "b_groups (host (snd (migrateWindow (refHost rejecting_group_moves) 2 1 (start demo))))
       = [\<lparr>g_id = 1, g_windowId = 1, title = ''Work'', color = ''blue'', collapsed = False\<rparr>]"
    unfolding mw by code_simp
  have m': "members 1 (host (snd (migrateWindow (refHost rejecting_group_moves) 2 1 (start demo)))) = {23}"
    unfolding mw by code_simp
  from m g m' migrated_group_preserved [OF h1 h2 h3 h4 h5 h6 h7 h8]
  show ?thesis by (intro conjI)
qed

text \<open>
  The claim as stated fails where the browser rejects the requests: with the group move
  and the batch move both rejected, group 7 of \<open>demo\<close> stays in window 2 with its
  member, and the target window 1 holds no group after the migration.
\<close>

theorem migrated_group_counterexample:
  "hd (b_groups demo) \<in> set (b_groups (host (start demo)))
   \<and> g_windowId (hd (b_groups demo)) = 2
   \<and> members (g_id (hd (b_groups demo))) (host (start demo)) = {23}
   \<and> filter (\<lambda>g. g_windowId g = 1)
        (b_groups (host (snd (migrateWindow (refHost rejecting) 2 1 (start demo))))) = []
   \<and> b_groups (host (snd (migrateWindow (refHost rejecting) 2 1 (start demo)))) = b_groups demo"
proof -
  have q: "tabs_query (refHost rejecting) 2 None (host (start demo)) = Inr (strip 2 demo)"
    by code_simp
  have ne: "strip 2 demo \<noteq> []"
    by code_simp
  have cl: "classifyTabs (refHost rejecting) (strip 2 demo) 2
        (snd (chrome_tabs_query (refHost rejecting) 2 None (start demo)))
       = (Inr demo_classified,
          (start demo)\<lparr>calls := [TabsQuery 2 None, TabGroupsQuery 2, TabsQuery 2 (Some 7)]\<rparr>)"
    by code_simp
  from migrateWindow_phases [OF q ne cl, of 1]
  have mw: "snd (migrateWindow (refHost rejecting) 2 1 (start demo)) =
     migrateTabs (refHost rejecting) (map t_id (c_ungrouped demo_classified)) 1
       (migrateTabGroups (refHost rejecting) (c_grouped demo_classified) 1
         (migratePinnedTabs (refHost rejecting) (c_pinned demo_classified) 1
           ((start demo)\<lparr>calls := [TabsQuery 2 None, TabGroupsQuery 2, TabsQuery 2 (Some 7)]\<rparr>)))"
    by auto
  have 1: "hd (b_groups demo) \<in> set (b_groups (host (start demo)))"
    by code_simp
  have 2: "g_windowId (hd (b_groups demo)) = 2"
    by code_simp
  have 3: "members (g_id (hd (b_groups demo))) (host (start demo)) = {23}"
    by code_simp
  have 4: "filter (\<lambda>g. g_windowId g = 1)
        (b_groups (host (snd (migrateWindow (refHost rejecting) 2 1 (start demo))))) = []"
    unfolding mw by code_simp
  have 5: "b_groups (host (snd (migrateWindow (refHost rejecting) 2 1 (start demo)))) = b_groups demo"
    unfolding mw by code_simp
  from 1 2 3 4 5 show ?thesis by (intro conjI)
qed

end
